theory Spec2Isabelle
  imports Main "HOL-Library.Sublist"
begin

section \<open>Go strings and the functions of package strings the source calls\<close>

text \<open>
  A Go string is a sequence of bytes; \<^typ>\<open>string\<close> is a list of 8-bit characters.
  The source calls \<open>strings.Split\<close> with the one-byte separators \<open>","\<close> and \<open>"="\<close>,
  \<open>strings.TrimSpace\<close> and \<open>strings.TrimPrefix\<close>.
\<close>

text \<open>\<open>strings.IndexRune(s, c)\<close> for an ASCII \<open>c\<close>: the index of the first \<open>c\<close>; \<open>None\<close> is Go's -1.\<close>

fun IndexRune :: "string \<Rightarrow> char \<Rightarrow> nat option" where
  "IndexRune [] c = None"
| "IndexRune (x # xs) c = (if x = c then Some 0 else map_option Suc (IndexRune xs c))"

text \<open>
  \<open>strings.Split(s, sep)\<close> for a one-byte \<open>sep\<close>: the substrings between the separators,
  one more than there are separators; \<open>Split("", sep)\<close> is the list of one empty string.
\<close>

fun Split :: "string \<Rightarrow> char \<Rightarrow> string list" where
  "Split [] sep = [[]]"
| "Split (c # cs) sep =
     (if c = sep then [] # Split cs sep
      else (case Split cs sep of [] \<Rightarrow> [[c]] | t # ts \<Rightarrow> (c # t) # ts))"

text \<open>
  \<open>strings.SplitN(s, sep, n)\<close> for a one-byte \<open>sep\<close> and \<open>n \<ge> 0\<close>: at most \<open>n\<close> substrings, the
  last one the unsplit remainder; \<open>n = 0\<close> gives the empty list.
\<close>

fun SplitN :: "string \<Rightarrow> char \<Rightarrow> nat \<Rightarrow> string list" where
  "SplitN s sep 0 = []"
| "SplitN s sep (Suc 0) = [s]"
| "SplitN s sep (Suc (Suc n)) =
     (case IndexRune s sep of
        None \<Rightarrow> [s]
      | Some i \<Rightarrow> take i s # SplitN (drop (Suc i) s) sep (Suc n))"

text \<open>\<open>strings.TrimPrefix(s, prefix)\<close>: \<open>s\<close> without the leading \<open>prefix\<close>, or \<open>s\<close> itself.\<close>

definition TrimPrefix :: "string \<Rightarrow> string \<Rightarrow> string" where
  "TrimPrefix s p = (if prefix p s then drop (length p) s else s)"

text \<open>
  \<open>strings.TrimSpace\<close> removes the leading and the trailing runes that satisfy
  \<open>unicode.IsSpace\<close>, decoding the bytes as UTF-8. The code points with that property are
  U+0009 to U+000D, U+0020, U+0085, U+00A0, U+1680, U+2000 to U+200A, U+2028, U+2029,
  U+202F, U+205F and U+3000. A rune decoded at the front (at the back) of a string is one of
  them exactly when the string starts (ends) with its UTF-8 encoding: an ill-formed byte
  decodes to U+FFFD, of width one, which is no space. \<open>spaceRunes\<close> lists the encodings.
\<close>

definition spaceRunes :: "string list" where
  "spaceRunes =
    [[CHR 0x09], [CHR 0x0A], [CHR 0x0B], [CHR 0x0C], [CHR 0x0D], [CHR 0x20],
     [CHR 0xC2, CHR 0x85], [CHR 0xC2, CHR 0xA0],
     [CHR 0xE1, CHR 0x9A, CHR 0x80],
     [CHR 0xE2, CHR 0x80, CHR 0x80], [CHR 0xE2, CHR 0x80, CHR 0x81],
     [CHR 0xE2, CHR 0x80, CHR 0x82], [CHR 0xE2, CHR 0x80, CHR 0x83],
     [CHR 0xE2, CHR 0x80, CHR 0x84], [CHR 0xE2, CHR 0x80, CHR 0x85],
     [CHR 0xE2, CHR 0x80, CHR 0x86], [CHR 0xE2, CHR 0x80, CHR 0x87],
     [CHR 0xE2, CHR 0x80, CHR 0x88], [CHR 0xE2, CHR 0x80, CHR 0x89],
     [CHR 0xE2, CHR 0x80, CHR 0x8A],
     [CHR 0xE2, CHR 0x80, CHR 0xA8], [CHR 0xE2, CHR 0x80, CHR 0xA9],
     [CHR 0xE2, CHR 0x80, CHR 0xAF],
     [CHR 0xE2, CHR 0x81, CHR 0x9F],
     [CHR 0xE3, CHR 0x80, CHR 0x80]]"

text \<open>The width in bytes of the space rune at the front of \<open>s\<close>; 0 when there is none.\<close>

definition leadingSpace :: "string \<Rightarrow> nat" where
  "leadingSpace s = (case find (\<lambda>q. prefix q s) spaceRunes of None \<Rightarrow> 0 | Some q \<Rightarrow> length q)"

text \<open>The width in bytes of the space rune at the back of \<open>s\<close>; 0 when there is none.\<close>

definition trailingSpace :: "string \<Rightarrow> nat" where
  "trailingSpace s = (case find (\<lambda>q. suffix q s) spaceRunes of None \<Rightarrow> 0 | Some q \<Rightarrow> length q)"

function TrimLeftSpace :: "string \<Rightarrow> string" where
  "TrimLeftSpace s = (if leadingSpace s = 0 then s else TrimLeftSpace (drop (leadingSpace s) s))"
  by pat_completeness auto
termination
proof (relation "measure length")
  fix s :: string
  assume "leadingSpace s \<noteq> 0"
  moreover have "leadingSpace s \<le> length s"
    by (auto simp: leadingSpace_def find_Some_iff prefix_length_le split: option.splits)
  ultimately show "(drop (leadingSpace s) s, s) \<in> measure length" by simp
qed simp

function TrimRightSpace :: "string \<Rightarrow> string" where
  "TrimRightSpace s =
     (if trailingSpace s = 0 then s else TrimRightSpace (take (length s - trailingSpace s) s))"
  by pat_completeness auto
termination
proof (relation "measure length")
  fix s :: string
  assume "trailingSpace s \<noteq> 0"
  moreover have "trailingSpace s \<le> length s"
    by (auto simp: trailingSpace_def find_Some_iff suffix_length_le split: option.splits)
  ultimately show "(take (length s - trailingSpace s) s, s) \<in> measure length" by simp
qed simp

declare TrimLeftSpace.simps [simp del] TrimRightSpace.simps [simp del]

definition TrimSpace :: "string \<Rightarrow> string" where
  "TrimSpace s = TrimRightSpace (TrimLeftSpace s)"

section \<open>Package semver\<close>

text \<open>
  Modelled from the spec: the package \<open>github.com/blang/semver\<close>, which the source imports and
  which is no part of this repository. The spec asks for a string that is "parseable as a
  semantic version (major.minor.patch plus optional pre-release/build metadata per standard
  semver grammar)" and for "standard semver ordering (numeric major/minor/patch, then
  pre-release precedence per semver spec)". The definitions below follow the package's
  \<open>Parse\<close> (of which \<open>Make\<close> is an alias) and \<open>Compare\<close> step by step. The \<open>uint64\<close> fields
  are natural numbers: \<open>strconv.ParseUint\<close> refuses a value of \<open>2 ^ 64\<close> or more, and the
  numbers are only compared, never computed with.
\<close>

record PRVersion =
  VersionStr :: string
  VersionNum :: nat
  IsNum :: bool

record semver_Version =
  Major :: nat
  Minor :: nat
  Patch :: nat
  Pre :: "PRVersion list"
  Build :: "string list"

text \<open>
  The errors of the package, with the values its messages are formatted from: the kind of
  number or identifier and the offending text.
\<close>

datatype semver_error =
    VersionStringEmpty
  | NoMajorMinorPatch
  | InvalidCharacters string string
  | LeadingZeroes string string
  | ParseUintError string
  | PrereleaseEmpty
  | BuildMetaDataEmpty

definition numbers :: string where
  "numbers = ''0123456789''"

definition alphas :: string where
  "alphas = ''abcdefghijklmnopqrstuvwxyzABCDEFGHIJKLMNOPQRSTUVWXYZ-''"

definition alphanum :: string where
  "alphanum = alphas @ numbers"

text \<open>
  \<open>containsOnly(s, set)\<close>: no rune of \<open>s\<close> lies outside \<open>set\<close>. The sets are ASCII, and a byte
  of \<open>0x80\<close> or more belongs to a rune that is not ASCII, so this is a test on the bytes.
\<close>

definition containsOnly :: "string \<Rightarrow> string \<Rightarrow> bool" where
  "containsOnly s st = list_all (\<lambda>c. c \<in> set st) s"

definition hasLeadingZeroes :: "string \<Rightarrow> bool" where
  "hasLeadingZeroes s = (case s of c # _ # _ \<Rightarrow> c = CHR ''0'' | _ \<Rightarrow> False)"

text \<open>
  \<open>strconv.ParseUint(s, 10, 64)\<close>: a syntax error for the empty string and for a byte that
  is no decimal digit, a range error for a value that does not fit 64 bits.
\<close>

definition ParseUint :: "string \<Rightarrow> semver_error + nat" where
  "ParseUint s =
     (if s = [] \<or> \<not> list_all (\<lambda>c. c \<in> set numbers) s then Inl (ParseUintError s)
      else let n = foldl (\<lambda>a c. 10 * a + (of_char c - 48)) (0::nat) s
           in if n < 2 ^ 64 then Inr n else Inl (ParseUintError s))"

text \<open>The three checks the package makes on each of the major, minor and patch numbers.\<close>

definition parseNumber :: "string \<Rightarrow> string \<Rightarrow> semver_error + nat" where
  "parseNumber what s =
     (if \<not> containsOnly s numbers then Inl (InvalidCharacters what s)
      else if hasLeadingZeroes s then Inl (LeadingZeroes what s)
      else ParseUint s)"

definition NewPRVersion :: "string \<Rightarrow> semver_error + PRVersion" where
  "NewPRVersion s =
     (if length s = 0 then Inl PrereleaseEmpty
      else if containsOnly s numbers then
        (if hasLeadingZeroes s then Inl (LeadingZeroes ''Numeric PreRelease version'' s)
         else case ParseUint s of
                Inl e \<Rightarrow> Inl e
              | Inr num \<Rightarrow> Inr \<lparr>VersionStr = [], VersionNum = num, IsNum = True\<rparr>)
      else if containsOnly s alphanum then Inr \<lparr>VersionStr = s, VersionNum = 0, IsNum = False\<rparr>
      else Inl (InvalidCharacters ''prerelease'' s))"

text \<open>The loop over the pre-release identifiers: the first error ends it.\<close>

fun parsePrerelease :: "string list \<Rightarrow> semver_error + PRVersion list" where
  "parsePrerelease [] = Inr []"
| "parsePrerelease (prstr # rest) =
     (case NewPRVersion prstr of
        Inl e \<Rightarrow> Inl e
      | Inr parsedPR \<Rightarrow>
          (case parsePrerelease rest of Inl e \<Rightarrow> Inl e | Inr prs \<Rightarrow> Inr (parsedPR # prs)))"

text \<open>The loop over the build identifiers: the first error ends it.\<close>

fun parseBuild :: "string list \<Rightarrow> semver_error + string list" where
  "parseBuild [] = Inr []"
| "parseBuild (str # rest) =
     (if length str = 0 then Inl BuildMetaDataEmpty
      else if \<not> containsOnly str alphanum then Inl (InvalidCharacters ''build meta data'' str)
      else case parseBuild rest of Inl e \<Rightarrow> Inl e | Inr bs \<Rightarrow> Inr (str # bs))"

text \<open>
  The third part of the split carries the patch number, then \<open>-\<close> and the pre-release
  identifiers, then \<open>+\<close> and the build identifiers. \<open>cutAt c s\<close> is what the package does
  at the first \<open>c\<close>: the identifiers after it, split at the dots, and the text before it.
\<close>

definition cutAt :: "char \<Rightarrow> string \<Rightarrow> string list \<times> string" where
  "cutAt c s =
     (case IndexRune s c of
        None \<Rightarrow> ([], s)
      | Some i \<Rightarrow> (Split (drop (Suc i) s) CHR ''.'', take i s))"

definition semver_Parse :: "string \<Rightarrow> semver_error + semver_Version" where
  "semver_Parse s =
     (if length s = 0 then Inl VersionStringEmpty
      else case SplitN s CHR ''.'' 3 of
        [p0, p1, p2] \<Rightarrow>
          (case parseNumber ''major number'' p0 of
             Inl e \<Rightarrow> Inl e
           | Inr major \<Rightarrow>
          (case parseNumber ''minor number'' p1 of
             Inl e \<Rightarrow> Inl e
           | Inr minor \<Rightarrow>
          (let (build, patchStr1) = cutAt CHR ''+'' p2;
               (prerelease, patchStr) = cutAt CHR ''-'' patchStr1
           in case parseNumber ''patch number'' patchStr of
             Inl e \<Rightarrow> Inl e
           | Inr patch \<Rightarrow>
          (case parsePrerelease prerelease of
             Inl e \<Rightarrow> Inl e
           | Inr pre \<Rightarrow>
          (case parseBuild build of
             Inl e \<Rightarrow> Inl e
           | Inr bld \<Rightarrow>
               Inr \<lparr>Major = major, Minor = minor, Patch = patch, Pre = pre, Build = bld\<rparr>)))))
      | _ \<Rightarrow> Inl NoMajorMinorPatch)"

definition semver_Make :: "string \<Rightarrow> semver_error + semver_Version" where
  "semver_Make s = semver_Parse s"

text \<open>Go compares two strings byte by byte; \<open>stringGreater a b\<close> is \<open>a > b\<close>.\<close>

fun stringGreater :: "string \<Rightarrow> string \<Rightarrow> bool" where
  "stringGreater [] b = False"
| "stringGreater (x # a) [] = True"
| "stringGreater (x # a) (y # b) =
     (if x = y then stringGreater a b else (of_char x :: nat) > of_char y)"

definition PRVersion_Compare :: "PRVersion \<Rightarrow> PRVersion \<Rightarrow> int" where
  "PRVersion_Compare v o' =
     (if IsNum v \<and> \<not> IsNum o' then -1
      else if \<not> IsNum v \<and> IsNum o' then 1
      else if IsNum v \<and> IsNum o' then
        (if VersionNum v = VersionNum o' then 0
         else if VersionNum v > VersionNum o' then 1
         else -1)
      else
        (if VersionStr v = VersionStr o' then 0
         else if stringGreater (VersionStr v) (VersionStr o') then 1
         else -1))"

text \<open>
  The loop of \<open>Compare\<close> over the two lists of pre-release identifiers and the test after
  it: the first pair that differs decides; when one list ends first, the longer one is
  the greater.
\<close>

fun comparePre :: "PRVersion list \<Rightarrow> PRVersion list \<Rightarrow> int" where
  "comparePre [] [] = 0"
| "comparePre [] (y # ys) = -1"
| "comparePre (x # xs) [] = 1"
| "comparePre (x # xs) (y # ys) =
     (let comp = PRVersion_Compare x y
      in if comp = 0 then comparePre xs ys else if comp = 1 then 1 else -1)"

definition semver_Compare :: "semver_Version \<Rightarrow> semver_Version \<Rightarrow> int" where
  "semver_Compare v o' =
     (if Major v \<noteq> Major o' then (if Major v > Major o' then 1 else -1)
      else if Minor v \<noteq> Minor o' then (if Minor v > Minor o' then 1 else -1)
      else if Patch v \<noteq> Patch o' then (if Patch v > Patch o' then 1 else -1)
      else if length (Pre v) = 0 \<and> length (Pre o') = 0 then 0
      else if length (Pre v) = 0 \<and> length (Pre o') > 0 then 1
      else if length (Pre v) > 0 \<and> length (Pre o') = 0 then -1
      else comparePre (Pre v) (Pre o'))"

section \<open>Package version of the driver\<close>

record providerVersion =
  Version :: string
  BuildDate :: string
  MinDriverVersion :: string

text \<open>
  A Go \<open>error\<close> is an interface value; \<open>None\<close> is \<open>nil\<close>. The errors the package returns
  are the ones of \<open>semver.Make\<close>, handed on as they are, and the ones it formats itself with
  \<open>fmt.Errorf\<close>: each constructor carries the arguments of the format string.
\<close>

datatype error =
    SemverError semver_error
  | ErrGettingVersion string string string
  | ErrUnmarshalling string
  | ErrNotExpectedFormat "string list"
  | ErrProviderOrVersionEmpty string string
  | ErrDuplicateVersions string string string
  | ErrNotValidSemver string string semver_error

text \<open>The error kinds of the spec.\<close>

fun ProcessError :: "error \<Rightarrow> bool" where
  "ProcessError (ErrGettingVersion providerName err out) = True"
| "ProcessError _ = False"

fun DecodeError :: "error \<Rightarrow> bool" where
  "DecodeError (ErrUnmarshalling err) = True"
| "DecodeError _ = False"

fun MalformedEntryError :: "error \<Rightarrow> bool" where
  "MalformedEntryError (ErrNotExpectedFormat pv) = True"
| "MalformedEntryError (ErrProviderOrVersionEmpty provider version) = True"
| "MalformedEntryError _ = False"

fun DuplicateProviderError :: "error \<Rightarrow> bool" where
  "DuplicateProviderError (ErrDuplicateVersions provider v version) = True"
| "DuplicateProviderError _ = False"

fun InvalidSemverError :: "error \<Rightarrow> bool" where
  "InvalidSemverError (ErrNotValidSemver provider version err) = True"
| "InvalidSemverError (SemverError err) = True"
| "InvalidSemverError _ = False"

text \<open>
  What \<open>getProviderVersion\<close> takes from outside the program: \<open>Run\<close> is
  \<open>exec.CommandContext(ctx, name, args...).Run()\<close> with the two buffers attached, giving the
  error of the run (the program could not be started, exited with a status other than 0,
  or the context ended it) and what the child wrote; \<open>Unmarshal\<close> is \<open>json.Unmarshal\<close> into
  a \<open>providerVersion\<close>, giving its error and the record as the decoder left it.
\<close>

record cmdResult =
  runErr :: "string option"
  stdout :: string
  stderr :: string

record 'ctx system =
  Run :: "'ctx \<Rightarrow> string \<Rightarrow> string list \<Rightarrow> cmdResult"
  Unmarshal :: "string \<Rightarrow> providerVersion \<Rightarrow> string option \<times> providerVersion"

definition normalizeVersion :: "string \<Rightarrow> string" where
  "normalizeVersion version = TrimPrefix version ''v''"

definition isValidSemver :: "string \<Rightarrow> semver_error option" where
  "isValidSemver version = (case semver_Make version of Inl err \<Rightarrow> Some err | Inr _ \<Rightarrow> None)"

definition isProviderCompatible :: "string \<Rightarrow> string \<Rightarrow> bool \<times> error option" where
  "isProviderCompatible currVersion minVersion =
     (case semver_Make currVersion of
        Inl err \<Rightarrow> (False, Some (SemverError err))
      | Inr currV \<Rightarrow>
          (case semver_Make minVersion of
             Inl err \<Rightarrow> (False, Some (SemverError err))
           | Inr minV \<Rightarrow> (semver_Compare currV minV \<ge> 0, None)))"

text \<open>\<open>var pv providerVersion\<close>: every field is the empty string.\<close>

definition zeroProviderVersion :: providerVersion where
  "zeroProviderVersion = \<lparr>Version = [], BuildDate = [], MinDriverVersion = []\<rparr>"

definition getProviderVersion :: "'ctx system \<Rightarrow> 'ctx \<Rightarrow> string \<Rightarrow> string \<times> error option" where
  "getProviderVersion sys ctx providerName =
     (let cmd = Run sys ctx providerName [''--version'']
      in case runErr cmd of
           Some err \<Rightarrow> ([], Some (ErrGettingVersion providerName err (stderr cmd)))
         | None \<Rightarrow>
             (case Unmarshal sys (stdout cmd) zeroProviderVersion of
                (Some err, pv) \<Rightarrow> ([], Some (ErrUnmarshalling err))
              | (None, pv) \<Rightarrow> (Version pv, None)))"

definition IsProviderCompatible ::
  "'ctx system \<Rightarrow> 'ctx \<Rightarrow> string \<Rightarrow> string \<Rightarrow> bool \<times> error option" where
  "IsProviderCompatible sys ctx provider minProviderVersion =
     (case getProviderVersion sys ctx provider of
        (currProviderVersion, Some err) \<Rightarrow> (False, Some err)
      | (currProviderVersion, None) \<Rightarrow>
          isProviderCompatible (normalizeVersion currProviderVersion)
            (normalizeVersion minProviderVersion))"

text \<open>
  The body of the loop of \<open>GetMinimumProviderVersions\<close> for one element \<open>p\<close> of \<open>providers\<close>:
  \<open>Inl\<close> is the error the function returns with, \<open>Inr\<close> the map after line 86.
\<close>

definition loopBody :: "(string \<rightharpoonup> string) \<Rightarrow> string \<Rightarrow> error + (string \<rightharpoonup> string)" where
  "loopBody providerVersionMap p0 =
     (let p = TrimSpace p0;
          pv = Split p CHR ''=''
      in if length pv \<noteq> 2 then Inl (ErrNotExpectedFormat pv)
         else
           let provider = TrimSpace (pv ! 0);
               version = TrimSpace (pv ! 1)
           in if length provider = 0 \<or> length version = 0
              then Inl (ErrProviderOrVersionEmpty provider version)
              else case providerVersionMap provider of
                     Some v \<Rightarrow> Inl (ErrDuplicateVersions provider v version)
                   | None \<Rightarrow>
                       (case isValidSemver version of
                          Some err \<Rightarrow> Inl (ErrNotValidSemver provider version err)
                        | None \<Rightarrow> Inr (providerVersionMap(provider \<mapsto> version))))"

text \<open>
  The loop over \<open>providers\<close>. The function returns the map together with the error, so the
  result is the pair of both; at an error the map holds the pairs accepted before it.
\<close>

fun rangeProviders ::
  "(string \<rightharpoonup> string) \<Rightarrow> string list \<Rightarrow> (string \<rightharpoonup> string) \<times> error option" where
  "rangeProviders providerVersionMap [] = (providerVersionMap, None)"
| "rangeProviders providerVersionMap (p # providers) =
     (case loopBody providerVersionMap p of
        Inl err \<Rightarrow> (providerVersionMap, Some err)
      | Inr providerVersionMap' \<Rightarrow> rangeProviders providerVersionMap' providers)"

definition GetMinimumProviderVersions :: "string \<Rightarrow> (string \<rightharpoonup> string) \<times> error option" where
  "GetMinimumProviderVersions minProviderVersions =
     (if minProviderVersions = [] then (Map.empty, None)
      else rangeProviders Map.empty (Split minProviderVersions CHR '',''))"

section \<open>Providers to run the program with\<close>

text \<open>
  Four providers for the examples: one whose run succeeds and whose output decodes to the
  version \<open>v\<close>; one whose run fails with the error \<open>err\<close>, having written \<open>out\<close> to its
  standard error; one whose output \<open>json.Unmarshal\<close> refuses with the error \<open>err\<close>; and one
  whose output is an object without a \<open>version\<close> field, so that the decoder leaves the field
  as it finds it.
\<close>

definition providerReporting :: "string \<Rightarrow> unit system" where
  "providerReporting v =
     \<lparr>Run = (\<lambda>ctx name args. \<lparr>runErr = None, stdout = [], stderr = []\<rparr>),
      Unmarshal = (\<lambda>data pv. (None, pv\<lparr>Version := v\<rparr>))\<rparr>"

definition providerFailing :: "string \<Rightarrow> string \<Rightarrow> unit system" where
  "providerFailing err out =
     \<lparr>Run = (\<lambda>ctx name args. \<lparr>runErr = Some err, stdout = [], stderr = out\<rparr>),
      Unmarshal = (\<lambda>data pv. (None, pv))\<rparr>"

definition providerUndecodable :: "string \<Rightarrow> unit system" where
  "providerUndecodable err =
     \<lparr>Run = (\<lambda>ctx name args. \<lparr>runErr = None, stdout = ''not json'', stderr = []\<rparr>),
      Unmarshal = (\<lambda>data pv. (Some err, pv))\<rparr>"

definition providerWithoutVersion :: "unit system" where
  "providerWithoutVersion =
     \<lparr>Run = (\<lambda>ctx name args. \<lparr>runErr = None, stdout = ''{}'', stderr = []\<rparr>),
      Unmarshal = (\<lambda>data pv. (None, pv))\<rparr>"

section \<open>The words of the claims\<close>

text \<open>
  A string consists only of white space when removing the space runes at its front uses it
  up.
\<close>

definition whitespaceOnly :: "string \<Rightarrow> bool" where
  "whitespaceOnly s = (TrimLeftSpace s = [])"

text \<open>
  The tokens of a pair, as the loop computes them: the pair trimmed and split at \<open>=\<close>, the
  first token trimmed for the provider, the second one for the version.
\<close>

definition pairTokens :: "string \<Rightarrow> string list" where
  "pairTokens p = Split (TrimSpace p) CHR ''=''"

definition providerOf :: "string \<Rightarrow> string" where
  "providerOf p = TrimSpace (pairTokens p ! 0)"

definition versionOf :: "string \<Rightarrow> string" where
  "versionOf p = TrimSpace (pairTokens p ! 1)"

text \<open>
  A pair "splits into exactly two parts on the first \<open>=\<close> with both the provider token and
  the version token non-empty after trimming": the trimmed pair has a \<open>=\<close>, and the text
  before the first one and the text after it are both more than white space.
\<close>

definition splitsOnFirstEq :: "string \<Rightarrow> bool" where
  "splitsOnFirstEq p =
     (let t = TrimSpace p
      in case IndexRune t CHR ''='' of
           None \<Rightarrow> False
         | Some i \<Rightarrow> TrimSpace (take i t) \<noteq> [] \<and> TrimSpace (drop (Suc i) t) \<noteq> [])"

text \<open>
  A pair "trims to a non-empty provider name and a valid-semver version": two tokens, the
  provider not empty, the version accepted by \<open>isValidSemver\<close>.
\<close>

definition validPair :: "string \<Rightarrow> bool" where
  "validPair p =
     (length (pairTokens p) = 2 \<and> providerOf p \<noteq> [] \<and> isValidSemver (versionOf p) = None)"

text \<open>The entry of the mapping a pair stands for.\<close>

definition pairEntry :: "string \<Rightarrow> string \<times> string" where
  "pairEntry p = (providerOf p, versionOf p)"

section \<open>Facts about the string functions\<close>

lemma Split_not_Nil: "Split s c \<noteq> []"
  by (induction s) (auto split: list.splits)

lemma Split_no_sep: "c \<notin> set s \<Longrightarrow> Split s c = [s]"
  by (induction s) auto

lemma IndexRune_None_iff: "IndexRune s c = None \<longleftrightarrow> c \<notin> set s"
  by (induction s) auto

lemma IndexRune_Some_take: "IndexRune s c = Some i \<Longrightarrow> i < length s \<and> s ! i = c \<and> c \<notin> set (take i s)"
  by (induction s arbitrary: i) (auto split: if_splits)

lemma Split_at_IndexRune:
  "IndexRune s c = Some i \<Longrightarrow> Split s c = take i s # Split (drop (Suc i) s) c"
proof (induction s arbitrary: i)
  case Nil
  then show ?case by simp
next
  case (Cons x xs)
  show ?case
  proof (cases "x = c")
    case True
    with Cons.prems show ?thesis by simp
  next
    case False
    with Cons.prems obtain j where j: "IndexRune xs c = Some j" "i = Suc j"
      by auto
    from Cons.IH [OF j(1)] False j(2) show ?thesis by simp
  qed
qed

lemma Split_length_one_iff: "length (Split s c) = Suc 0 \<longleftrightarrow> c \<notin> set s"
proof (induction s)
  case Nil
  show ?case by simp
next
  case (Cons x xs)
  show ?case
    using Cons.IH Split_not_Nil [of xs c]
    by (cases "Split xs c") auto
qed

lemma Split_two_parts:
  assumes "length (Split s c) = 2"
  shows "\<exists>i. IndexRune s c = Some i \<and> Split s c = [take i s, drop (Suc i) s] \<and> c \<notin> set (drop (Suc i) s)"
proof (cases "IndexRune s c")
  case None
  then have "Split s c = [s]" by (simp add: IndexRune_None_iff Split_no_sep)
  with assms show ?thesis by simp
next
  case (Some i)
  then have eq: "Split s c = take i s # Split (drop (Suc i) s) c"
    by (rule Split_at_IndexRune)
  with assms have "length (Split (drop (Suc i) s) c) = Suc 0" by simp
  then have nin: "c \<notin> set (drop (Suc i) s)" by (simp add: Split_length_one_iff)
  then have "Split (drop (Suc i) s) c = [drop (Suc i) s]" by (rule Split_no_sep)
  with eq Some nin show ?thesis by simp
qed

lemma set_TrimLeftSpace: "set (TrimLeftSpace s) \<subseteq> set s"
proof (induction s rule: TrimLeftSpace.induct)
  case (1 s)
  show ?case
  proof (cases "leadingSpace s = 0")
    case True
    then show ?thesis by (simp add: TrimLeftSpace.simps)
  next
    case False
    from 1 [OF False] have "set (TrimLeftSpace (drop (leadingSpace s) s)) \<subseteq> set s"
      using set_drop_subset [of "leadingSpace s" s] by blast
    with False show ?thesis by (subst TrimLeftSpace.simps) simp
  qed
qed

lemma set_TrimRightSpace: "set (TrimRightSpace s) \<subseteq> set s"
proof (induction s rule: TrimRightSpace.induct)
  case (1 s)
  show ?case
  proof (cases "trailingSpace s = 0")
    case True
    then show ?thesis by (simp add: TrimRightSpace.simps)
  next
    case False
    from 1 [OF False]
    have "set (TrimRightSpace (take (length s - trailingSpace s) s)) \<subseteq> set s"
      using set_take_subset [of "length s - trailingSpace s" s] by blast
    with False show ?thesis by (subst TrimRightSpace.simps) simp
  qed
qed

lemma set_TrimSpace: "set (TrimSpace s) \<subseteq> set s"
  using set_TrimRightSpace [of "TrimLeftSpace s"] set_TrimLeftSpace [of s]
  by (auto simp: TrimSpace_def)

lemma leadingSpace_Nil: "leadingSpace [] = 0"
  by (simp add: leadingSpace_def spaceRunes_def)

lemma trailingSpace_Nil: "trailingSpace [] = 0"
  by (simp add: trailingSpace_def spaceRunes_def)

lemma TrimSpace_Nil: "TrimSpace [] = []"
  by (simp add: TrimSpace_def TrimLeftSpace.simps TrimRightSpace.simps leadingSpace_Nil
      trailingSpace_Nil)

lemma leadingSpace_prefix:
  assumes "leadingSpace s \<noteq> 0"
  shows "take (leadingSpace s) s \<in> set spaceRunes"
proof -
  from assms obtain q where q: "find (\<lambda>q. prefix q s) spaceRunes = Some q"
    and w: "leadingSpace s = length q"
    by (auto simp: leadingSpace_def split: option.splits)
  from q have "q \<in> set spaceRunes" and "prefix q s"
    by (auto simp: find_Some_iff)
  then have "take (length q) s = q" by (auto simp: prefix_def)
  with w \<open>q \<in> set spaceRunes\<close> show ?thesis by simp
qed

lemma whitespaceOnly_bytes:
  "TrimLeftSpace s = [] \<Longrightarrow> set s \<subseteq> \<Union> (set ` set spaceRunes)"
proof (induction s rule: TrimLeftSpace.induct)
  case (1 s)
  show ?case
  proof (cases "leadingSpace s = 0")
    case True
    with "1.prems" show ?thesis by (simp add: TrimLeftSpace.simps)
  next
    case False
    with "1.prems" have "TrimLeftSpace (drop (leadingSpace s) s) = []"
      by (subst (asm) TrimLeftSpace.simps) simp
    from "1.IH" [OF False this] have a: "set (drop (leadingSpace s) s) \<subseteq> \<Union> (set ` set spaceRunes)" .
    from leadingSpace_prefix [OF False] have b: "set (take (leadingSpace s) s) \<subseteq> \<Union> (set ` set spaceRunes)"
      by blast
    have "set s = set (take (leadingSpace s) s) \<union> set (drop (leadingSpace s) s)"
      by (metis append_take_drop_id set_append)
    with a b show ?thesis by blast
  qed
qed

lemma comma_no_space: "CHR '','' \<notin> \<Union> (set ` set spaceRunes)"
  by (simp add: spaceRunes_def)

lemma whitespaceOnly_TrimSpace: "whitespaceOnly s \<Longrightarrow> TrimSpace s = []"
  by (simp add: whitespaceOnly_def TrimSpace_def TrimRightSpace.simps trailingSpace_Nil)

lemma whitespaceOnly_no_comma: "whitespaceOnly s \<Longrightarrow> CHR '','' \<notin> set s"
  using whitespaceOnly_bytes [of s] comma_no_space by (auto simp: whitespaceOnly_def)

section \<open>Facts about the semver package\<close>

lemma PRVersion_Compare_refl: "PRVersion_Compare x x = 0"
  by (simp add: PRVersion_Compare_def)

lemma comparePre_refl: "comparePre xs xs = 0"
  by (induction xs) (simp_all add: PRVersion_Compare_refl)

lemma semver_Compare_refl: "semver_Compare v v = 0"
  by (simp add: semver_Compare_def comparePre_refl)

lemma comparePre_range: "comparePre xs ys \<in> {-1, 0, 1}"
  by (induction xs ys rule: comparePre.induct) (simp_all add: Let_def)

lemma semver_Compare_range: "semver_Compare a b \<in> {-1, 0, 1}"
  using comparePre_range [of "Pre a" "Pre b"] by (simp add: semver_Compare_def)

lemma semver_Make_empty: "semver_Make [] = Inl VersionStringEmpty"
  by (simp add: semver_Make_def semver_Parse_def)

lemma SplitN_3:
  "SplitN s sep 3 =
     (case IndexRune s sep of
        None \<Rightarrow> [s]
      | Some i \<Rightarrow>
          (case IndexRune (drop (Suc i) s) sep of
             None \<Rightarrow> [take i s, drop (Suc i) s]
           | Some j \<Rightarrow> [take i s, take j (drop (Suc i) s), drop (Suc j) (drop (Suc i) s)]))"
  by (simp add: numeral_3_eq_3 split: option.splits)

lemma semver_Make_v_prefix: "\<exists>e. semver_Make (CHR ''v'' # x) = Inl e"
proof (cases "IndexRune x CHR ''.''")
  case None
  then show ?thesis by (simp add: semver_Make_def semver_Parse_def SplitN_3)
next
  case (Some i)
  have "\<not> containsOnly (CHR ''v'' # take i x) numbers"
    by (simp add: containsOnly_def numbers_def)
  with Some show ?thesis
    by (simp add: semver_Make_def semver_Parse_def SplitN_3 parseNumber_def split: option.splits)
qed

lemma isValidSemver_v_prefix: "\<exists>e. isValidSemver (CHR ''v'' # x) = Some e"
  using semver_Make_v_prefix [of x] by (auto simp: isValidSemver_def)

section \<open>Facts about the loop of GetMinimumProviderVersions\<close>

lemma loopBody_eq:
  "loopBody m p =
     (if length (pairTokens p) \<noteq> 2 then Inl (ErrNotExpectedFormat (pairTokens p))
      else if providerOf p = [] \<or> versionOf p = []
        then Inl (ErrProviderOrVersionEmpty (providerOf p) (versionOf p))
      else case m (providerOf p) of
             Some v \<Rightarrow> Inl (ErrDuplicateVersions (providerOf p) v (versionOf p))
           | None \<Rightarrow>
               (case isValidSemver (versionOf p) of
                  Some err \<Rightarrow> Inl (ErrNotValidSemver (providerOf p) (versionOf p) err)
                | None \<Rightarrow> Inr (m(providerOf p \<mapsto> versionOf p))))"
  unfolding loopBody_def pairTokens_def providerOf_def versionOf_def Let_def by simp

lemma isValidSemver_Nil: "isValidSemver [] = Some VersionStringEmpty"
  by (simp add: isValidSemver_def semver_Make_def semver_Parse_def)

lemma loopBody_Inr_iff:
  "loopBody m p = Inr m' \<longleftrightarrow>
     validPair p \<and> m (providerOf p) = None \<and> m' = m(providerOf p \<mapsto> versionOf p)"
  by (auto simp: loopBody_eq validPair_def isValidSemver_Nil split: option.splits)

lemma rangeProviders_append:
  "rangeProviders m (ps1 @ ps2) =
     (case rangeProviders m ps1 of
        (m', None) \<Rightarrow> rangeProviders m' ps2
      | (m', Some e) \<Rightarrow> (m', Some e))"
  by (induction ps1 arbitrary: m) (auto split: sum.splits)

lemma rangeProviders_first_error:
  "rangeProviders m0 ps1 = (m, None) \<Longrightarrow> loopBody m p = Inl e
     \<Longrightarrow> rangeProviders m0 (ps1 @ p # ps2) = (m, Some e)"
  by (simp add: rangeProviders_append)

lemma rangeProviders_error_split:
  "rangeProviders m0 ps = (m, Some e) \<Longrightarrow>
     \<exists>ps1 p ps2. ps = ps1 @ p # ps2 \<and> rangeProviders m0 ps1 = (m, None) \<and> loopBody m p = Inl e"
proof (induction ps arbitrary: m0)
  case Nil
  then show ?case by simp
next
  case (Cons q qs)
  show ?case
  proof (cases "loopBody m0 q")
    case (Inl err)
    with Cons.prems have "m = m0" "e = err" by simp_all
    with Inl have "q # qs = [] @ q # qs \<and> rangeProviders m0 [] = (m, None) \<and> loopBody m q = Inl e"
      by simp
    then show ?thesis by blast
  next
    case (Inr m1)
    with Cons.prems have "rangeProviders m1 qs = (m, Some e)" by simp
    from Cons.IH [OF this] obtain ps1 p ps2 where
      *: "qs = ps1 @ p # ps2" "rangeProviders m1 ps1 = (m, None)" "loopBody m p = Inl e"
      by blast
    from * Inr have "q # qs = (q # ps1) @ p # ps2 \<and> rangeProviders m0 (q # ps1) = (m, None)
        \<and> loopBody m p = Inl e"
      by simp
    then show ?thesis by blast
  qed
qed

lemma rangeProviders_accepted:
  "rangeProviders m0 ps = (m, None) \<Longrightarrow>
     (\<forall>p \<in> set ps. validPair p \<and> m0 (providerOf p) = None \<and> m (providerOf p) = Some (versionOf p))
     \<and> distinct (map providerOf ps)
     \<and> (\<forall>k v. m0 k = Some v \<longrightarrow> m k = Some v)
     \<and> dom m = dom m0 \<union> providerOf ` set ps"
proof (induction ps arbitrary: m0)
  case Nil
  then show ?case by auto
next
  case (Cons q qs)
  from Cons.prems obtain m1 where q: "loopBody m0 q = Inr m1" and r: "rangeProviders m1 qs = (m, None)"
    by (auto split: sum.splits)
  from q have vq: "validPair q" and nq: "m0 (providerOf q) = None"
    and m1: "m1 = m0(providerOf q \<mapsto> versionOf q)"
    by (simp_all add: loopBody_Inr_iff)
  from Cons.IH [OF r] have
    ih1: "\<forall>p \<in> set qs. validPair p \<and> m1 (providerOf p) = None \<and> m (providerOf p) = Some (versionOf p)"
    and ih2: "distinct (map providerOf qs)"
    and ih3: "\<forall>k v. m1 k = Some v \<longrightarrow> m k = Some v"
    and ih4: "dom m = dom m1 \<union> providerOf ` set qs"
    by blast+
  have a: "\<forall>p \<in> set qs. providerOf p \<noteq> providerOf q \<and> m0 (providerOf p) = None"
    using ih1 m1 by (auto split: if_splits)
  have b: "m (providerOf q) = Some (versionOf q)" using ih3 m1 by simp
  have c: "\<forall>k v. m0 k = Some v \<longrightarrow> m k = Some v"
    using ih3 m1 nq by (metis fun_upd_apply option.distinct(1))
  have d: "dom m = dom m0 \<union> providerOf ` set (q # qs)" using ih4 m1 by auto
  from a have e: "providerOf q \<notin> providerOf ` set qs" by force
  show ?case using vq nq ih1 ih2 a b c d e by auto
qed

lemma rangeProviders_valid:
  "\<forall>p \<in> set ps. validPair p \<and> m0 (providerOf p) = None \<Longrightarrow> distinct (map providerOf ps)
     \<Longrightarrow> rangeProviders m0 ps = (m0 ++ map_of (map pairEntry ps), None)"
proof (induction ps arbitrary: m0)
  case Nil
  then show ?case by simp
next
  case (Cons q qs)
  let ?m1 = "m0(providerOf q \<mapsto> versionOf q)"
  from Cons.prems have q: "loopBody m0 q = Inr ?m1"
    by (simp add: loopBody_Inr_iff)
  from Cons.prems have "providerOf q \<notin> providerOf ` set qs" by simp
  then have "\<forall>p \<in> set qs. providerOf p \<noteq> providerOf q" by (metis image_eqI)
  with Cons.prems have "\<forall>p \<in> set qs. validPair p \<and> ?m1 (providerOf p) = None"
    by simp
  moreover from Cons.prems have "distinct (map providerOf qs)" by simp
  ultimately have ih: "rangeProviders ?m1 qs = (?m1 ++ map_of (map pairEntry qs), None)"
    by (rule Cons.IH)
  from Cons.prems have nin: "providerOf q \<notin> dom (map_of (map pairEntry qs))"
    by (auto simp: dom_map_of_conv_image_fst pairEntry_def image_image)
  have eq: "?m1 ++ map_of (map pairEntry qs) = m0 ++ map_of (map pairEntry (q # qs))"
  proof
    fix k
    show "(?m1 ++ map_of (map pairEntry qs)) k = (m0 ++ map_of (map pairEntry (q # qs))) k"
      using nin by (auto simp: map_add_def pairEntry_def domIff split: option.splits)
  qed
  have "rangeProviders m0 (q # qs) = rangeProviders ?m1 qs" using q by simp
  also have "\<dots> = (?m1 ++ map_of (map pairEntry qs), None)" by (rule ih)
  finally show ?case by (simp only: eq)
qed

lemma validPair_Nil: "\<not> validPair []"
  by (simp add: validPair_def pairTokens_def TrimSpace_Nil)

lemma pairTokens_no_eq: "CHR ''='' \<notin> set p \<Longrightarrow> pairTokens p = [TrimSpace p]"
  using set_TrimSpace [of p] by (auto simp: pairTokens_def intro!: Split_no_sep)

lemma splitsOnFirstEq_two_tokens:
  assumes "length (pairTokens p) = 2"
  shows "splitsOnFirstEq p \<longleftrightarrow> providerOf p \<noteq> [] \<and> versionOf p \<noteq> []"
proof -
  from assms have "length (Split (TrimSpace p) CHR ''='') = 2" by (simp add: pairTokens_def)
  from Split_two_parts [OF this] obtain i where
    i: "IndexRune (TrimSpace p) CHR ''='' = Some i"
    and sp: "Split (TrimSpace p) CHR ''='' = [take i (TrimSpace p), drop (Suc i) (TrimSpace p)]"
    by blast
  show ?thesis
    by (simp add: splitsOnFirstEq_def providerOf_def versionOf_def pairTokens_def i sp Let_def)
qed

lemma loopBody_malformed:
  assumes "\<not> splitsOnFirstEq p"
  shows "\<exists>e. loopBody m p = Inl e \<and> MalformedEntryError e"
proof (cases "length (pairTokens p) = 2")
  case True
  with assms have "providerOf p = [] \<or> versionOf p = []"
    by (simp add: splitsOnFirstEq_two_tokens)
  with True show ?thesis by (auto simp: loopBody_eq)
next
  case False
  then show ?thesis by (simp add: loopBody_eq)
qed

lemma validPair_splitsOnFirstEq:
  "validPair p \<Longrightarrow> splitsOnFirstEq p \<and> length (pairTokens p) = 2 \<and> providerOf p \<noteq> [] \<and> versionOf p \<noteq> []"
  by (auto simp: validPair_def splitsOnFirstEq_two_tokens isValidSemver_Nil)

section \<open>Rules to evaluate the definitions on examples\<close>

lemmas str_eval = TrimSpace_def TrimLeftSpace.simps TrimRightSpace.simps leadingSpace_def
  trailingSpace_def spaceRunes_def suffix_to_prefix TrimPrefix_def

lemmas semver_eval = semver_Make_def semver_Parse_def parseNumber_def ParseUint_def
  containsOnly_def hasLeadingZeroes_def numbers_def alphas_def alphanum_def cutAt_def
  NewPRVersion_def semver_Compare_def PRVersion_Compare_def numeral_3_eq_3

lemmas version_eval = GetMinimumProviderVersions_def loopBody_def isValidSemver_def
  isProviderCompatible_def normalizeVersion_def IsProviderCompatible_def getProviderVersion_def
  zeroProviderVersion_def Let_def

lemmas claim_eval = pairTokens_def providerOf_def versionOf_def validPair_def pairEntry_def
  splitsOnFirstEq_def whitespaceOnly_def

lemmas provider_eval = providerReporting_def providerFailing_def providerUndecodable_def
  providerWithoutVersion_def

section \<open>The claims\<close>

text \<open>
  C1. When the probe succeeds and the probed version and the minimum version are both valid
  semver after \<open>normalizeVersion\<close>, \<open>IsProviderCompatible\<close> returns no error, and its verdict
  is true exactly when \<open>Compare\<close> of the probed version with the minimum yields 0 (equal)
  or 1 (greater). In particular a probed version equal to the minimum is compatible, and a
  probed version on which \<open>Compare\<close> yields -1 (smaller) is not.
\<close>

theorem IsProviderCompatible_iff_Compare:
  assumes "getProviderVersion sys ctx provider = (currProviderVersion, None)"
    and "semver_Make (normalizeVersion currProviderVersion) = Inr currV"
    and "semver_Make (normalizeVersion minProviderVersion) = Inr minV"
  shows "IsProviderCompatible sys ctx provider minProviderVersion
           = (semver_Compare currV minV = 0 \<or> semver_Compare currV minV = 1, None)
         \<and> (normalizeVersion currProviderVersion = normalizeVersion minProviderVersion
              \<longrightarrow> IsProviderCompatible sys ctx provider minProviderVersion = (True, None))
         \<and> (semver_Compare currV minV = -1
              \<longrightarrow> IsProviderCompatible sys ctx provider minProviderVersion = (False, None))"
proof -
  have res: "IsProviderCompatible sys ctx provider minProviderVersion
          = (semver_Compare currV minV \<ge> 0, None)"
    using assms by (simp add: IsProviderCompatible_def isProviderCompatible_def)
  have rng: "semver_Compare currV minV \<in> {-1, 0, 1}" by (rule semver_Compare_range)
  then have ge: "semver_Compare currV minV \<ge> 0
           \<longleftrightarrow> semver_Compare currV minV = 0 \<or> semver_Compare currV minV = 1"
    by auto
  have eq: "normalizeVersion currProviderVersion = normalizeVersion minProviderVersion
        \<Longrightarrow> semver_Compare currV minV = 0"
    using assms(2,3) by (simp add: semver_Compare_refl)
  show ?thesis using res ge eq by auto
qed

text \<open>
  The theorem at three providers, against the minimum \<open>1.0.0\<close>: one reporting \<open>v1.0.0\<close>
  (equal after normalization, compatible), one reporting \<open>0.9.9\<close> (smaller, not compatible),
  one reporting \<open>1.0.1-rc.1\<close> (greater, compatible).
\<close>

theorem IsProviderCompatible_iff_Compare_witness:
  "getProviderVersion (providerReporting ''v1.0.0'') () ''vault'' = (''v1.0.0'', None)
   \<and> semver_Make (normalizeVersion ''v1.0.0'')
       = Inr \<lparr>Major = 1, Minor = 0, Patch = 0, Pre = [], Build = []\<rparr>
   \<and> semver_Make (normalizeVersion ''1.0.0'')
       = Inr \<lparr>Major = 1, Minor = 0, Patch = 0, Pre = [], Build = []\<rparr>
   \<and> normalizeVersion ''v1.0.0'' = normalizeVersion ''1.0.0''
   \<and> IsProviderCompatible (providerReporting ''v1.0.0'') () ''vault'' ''1.0.0'' = (True, None)
   \<and> getProviderVersion (providerReporting ''0.9.9'') () ''vault'' = (''0.9.9'', None)
   \<and> semver_Make (normalizeVersion ''0.9.9'')
       = Inr \<lparr>Major = 0, Minor = 9, Patch = 9, Pre = [], Build = []\<rparr>
   \<and> semver_Compare \<lparr>Major = 0, Minor = 9, Patch = 9, Pre = [], Build = []\<rparr>
        \<lparr>Major = 1, Minor = 0, Patch = 0, Pre = [], Build = []\<rparr> = -1
   \<and> IsProviderCompatible (providerReporting ''0.9.9'') () ''vault'' ''1.0.0'' = (False, None)
   \<and> getProviderVersion (providerReporting ''1.0.1-rc.1'') () ''vault'' = (''1.0.1-rc.1'', None)
   \<and> semver_Make (normalizeVersion ''1.0.1-rc.1'')
       = Inr \<lparr>Major = 1, Minor = 0, Patch = 1,
              Pre = [\<lparr>VersionStr = ''rc'', VersionNum = 0, IsNum = False\<rparr>,
                     \<lparr>VersionStr = [], VersionNum = 1, IsNum = True\<rparr>], Build = []\<rparr>
   \<and> IsProviderCompatible (providerReporting ''1.0.1-rc.1'') () ''vault'' ''1.0.0'' = (True, None)"
proof -
  let ?v100 = "\<lparr>Major = 1, Minor = 0, Patch = 0, Pre = [], Build = []\<rparr>"
  let ?v099 = "\<lparr>Major = 0, Minor = 9, Patch = 9, Pre = [], Build = []\<rparr>"
  let ?v101 = "\<lparr>Major = 1, Minor = 0, Patch = 1,
              Pre = [\<lparr>VersionStr = ''rc'', VersionNum = 0, IsNum = False\<rparr>,
                     \<lparr>VersionStr = [], VersionNum = 1, IsNum = True\<rparr>], Build = []\<rparr>"
  have g1: "getProviderVersion (providerReporting ''v1.0.0'') () ''vault'' = (''v1.0.0'', None)"
    by (simp add: getProviderVersion_def providerReporting_def)
  have g2: "getProviderVersion (providerReporting ''0.9.9'') () ''vault'' = (''0.9.9'', None)"
    by (simp add: getProviderVersion_def providerReporting_def)
  have g3: "getProviderVersion (providerReporting ''1.0.1-rc.1'') () ''vault'' = (''1.0.1-rc.1'', None)"
    by (simp add: getProviderVersion_def providerReporting_def)
  have n1: "normalizeVersion ''v1.0.0'' = ''1.0.0''" by (simp add: normalizeVersion_def TrimPrefix_def)
  have n2: "normalizeVersion ''1.0.0'' = ''1.0.0''" by (simp add: normalizeVersion_def TrimPrefix_def)
  have n3: "normalizeVersion ''0.9.9'' = ''0.9.9''" by (simp add: normalizeVersion_def TrimPrefix_def)
  have n4: "normalizeVersion ''1.0.1-rc.1'' = ''1.0.1-rc.1''"
    by (simp add: normalizeVersion_def TrimPrefix_def)
  have m1: "semver_Make ''1.0.0'' = Inr ?v100" by (simp add: semver_eval)
  have m2: "semver_Make ''0.9.9'' = Inr ?v099" by (simp add: semver_eval)
  have m3: "semver_Make ''1.0.1-rc.1'' = Inr ?v101" by (simp add: semver_eval)
  have c1: "semver_Compare ?v100 ?v100 = 0" by (simp add: semver_Compare_def)
  have c2: "semver_Compare ?v099 ?v100 = -1" by (simp add: semver_Compare_def)
  have c3: "semver_Compare ?v101 ?v100 = 1" by (simp add: semver_Compare_def)
  have r1: "IsProviderCompatible (providerReporting ''v1.0.0'') () ''vault'' ''1.0.0'' = (True, None)"
    using IsProviderCompatible_iff_Compare
        [of "providerReporting ''v1.0.0''" "()" "''vault''" "''v1.0.0''" ?v100 "''1.0.0''" ?v100]
      g1 n1 n2 m1 c1
    by simp
  have r2: "IsProviderCompatible (providerReporting ''0.9.9'') () ''vault'' ''1.0.0'' = (False, None)"
    using IsProviderCompatible_iff_Compare
        [of "providerReporting ''0.9.9''" "()" "''vault''" "''0.9.9''" ?v099 "''1.0.0''" ?v100]
      g2 n3 n2 m1 m2 c2
    by simp
  have r3: "IsProviderCompatible (providerReporting ''1.0.1-rc.1'') () ''vault'' ''1.0.0'' = (True, None)"
    using IsProviderCompatible_iff_Compare
        [of "providerReporting ''1.0.1-rc.1''" "()" "''vault''" "''1.0.1-rc.1''" ?v101 "''1.0.0''" ?v100]
      g3 n4 n2 m1 m3 c3
    by simp
  from g1 g2 g3 n1 n2 n3 n4 m1 m2 m3 c2 r1 r2 r3 show ?thesis by simp
qed

text \<open>
  C2, as the code has it. For the empty string \<open>GetMinimumProviderVersions\<close> returns the
  empty mapping and no error. For a string that is not empty and consists only of white
  space it returns the empty mapping together with an error of the kind
  \<open>MalformedEntryError\<close>: the test of line 56 is for the empty string alone, the string has no
  comma, so it is the only pair, it trims to the empty string, and the split of that at
  \<open>=\<close> has one part, not two.
\<close>

theorem GetMinimumProviderVersions_empty_or_whitespace:
  "GetMinimumProviderVersions [] = (Map.empty, None)
   \<and> (minProviderVersions \<noteq> [] \<and> whitespaceOnly minProviderVersions
        \<longrightarrow> GetMinimumProviderVersions minProviderVersions
              = (Map.empty, Some (ErrNotExpectedFormat [[]]))
          \<and> MalformedEntryError (ErrNotExpectedFormat [[]]))"
proof (intro conjI impI; (elim conjE)?)
  show "GetMinimumProviderVersions [] = (Map.empty, None)"
    by (simp add: GetMinimumProviderVersions_def)
next
  assume ne: "minProviderVersions \<noteq> []" and ws: "whitespaceOnly minProviderVersions"
  from ws have "Split minProviderVersions CHR '','' = [minProviderVersions]"
    by (intro Split_no_sep whitespaceOnly_no_comma)
  moreover from ws have "pairTokens minProviderVersions = [[]]"
    by (simp add: pairTokens_def whitespaceOnly_TrimSpace)
  ultimately show "GetMinimumProviderVersions minProviderVersions
              = (Map.empty, Some (ErrNotExpectedFormat [[]]))"
    using ne by (simp add: GetMinimumProviderVersions_def loopBody_eq)
next
  show "MalformedEntryError (ErrNotExpectedFormat [[]])" by simp
qed

text \<open>
  The theorem at the string of a space, a tab and a no-break space (U+00A0, two bytes).
\<close>

theorem GetMinimumProviderVersions_empty_or_whitespace_witness:"[CHR 0x20, CHR 0x09, CHR 0xC2, CHR 0xA0] \<noteq> []
   \<and> whitespaceOnly [CHR 0x20, CHR 0x09, CHR 0xC2, CHR 0xA0]
   \<and> GetMinimumProviderVersions [CHR 0x20, CHR 0x09, CHR 0xC2, CHR 0xA0]
       = (Map.empty, Some (ErrNotExpectedFormat [[]]))"
proof -
  have w: "whitespaceOnly [CHR 0x20, CHR 0x09, CHR 0xC2, CHR 0xA0]"
    by (simp add: claim_eval str_eval)
  with GetMinimumProviderVersions_empty_or_whitespace [of "[CHR 0x20, CHR 0x09, CHR 0xC2, CHR 0xA0]"]
  show ?thesis by simp
qed

text \<open>
  C2 as the claim words it fails at the string of one space: it consists only of white
  space, and the result carries an error.
\<close>

theorem GetMinimumProviderVersions_whitespace_counterexample:
  "whitespaceOnly '' ''
   \<and> GetMinimumProviderVersions '' '' = (Map.empty, Some (ErrNotExpectedFormat [[]]))
   \<and> GetMinimumProviderVersions '' '' \<noteq> (Map.empty, None)"
proof -
  have w: "whitespaceOnly '' ''" by (simp add: claim_eval str_eval)
  have g: "GetMinimumProviderVersions '' '' = (Map.empty, Some (ErrNotExpectedFormat [[]]))"
    by (simp add: version_eval str_eval)
  from w g show ?thesis by simp
qed

text \<open>
  C3, as the code has it. A configuration string with a pair that does not split into exactly
  two parts on the first \<open>=\<close>, with the provider token and the version token both non-empty
  after trimming, is never accepted: \<open>GetMinimumProviderVersions\<close> returns an error for it.
  Which error, the first failing pair decides. Let \<open>p\<close> be a pair of a configuration string
  that is not empty, and let every pair before \<open>p\<close> have been accepted, leaving the map \<open>m\<close>.
  Then
  \<^item> if \<open>p\<close> is accepted too (the loop passes it without an error), \<open>p\<close> splits into exactly
    two parts on the first \<open>=\<close> with the provider token and the version token both non-empty
    after trimming; indeed it has exactly two tokens;
  \<^item> if \<open>p\<close> does not split so, \<open>GetMinimumProviderVersions\<close> returns an error of the kind
    \<open>MalformedEntryError\<close>, with the map \<open>m\<close>;
  \<^item> if \<open>p\<close> has no \<open>=\<close> at all, that error is the one of line 67, for the list of the one
    token \<open>TrimSpace p\<close>.
  The pairs after \<open>p\<close> are arbitrary.
\<close>

theorem GetMinimumProviderVersions_malformed_pair:
  "(minProviderVersions \<noteq> [] \<and> p \<in> set (Split minProviderVersions CHR '','')
      \<and> \<not> splitsOnFirstEq p
     \<longrightarrow> snd (GetMinimumProviderVersions minProviderVersions) \<noteq> None)
   \<and> (minProviderVersions \<noteq> [] \<and> Split minProviderVersions CHR '','' = ps1 @ p # ps2
     \<and> rangeProviders Map.empty ps1 = (m, None) \<longrightarrow>
     (rangeProviders Map.empty (ps1 @ [p]) = (m', None) \<longrightarrow>
        splitsOnFirstEq p \<and> length (pairTokens p) = 2 \<and> providerOf p \<noteq> [] \<and> versionOf p \<noteq> [])
     \<and> (\<not> splitsOnFirstEq p \<longrightarrow>
        (\<exists>e. GetMinimumProviderVersions minProviderVersions = (m, Some e) \<and> MalformedEntryError e))
     \<and> (CHR ''='' \<notin> set p \<longrightarrow>
        GetMinimumProviderVersions minProviderVersions = (m, Some (ErrNotExpectedFormat [TrimSpace p]))))"
proof (intro impI conjI; elim conjE)
  assume ne: "minProviderVersions \<noteq> []"
    and p: "p \<in> set (Split minProviderVersions CHR '','')"
    and ns: "\<not> splitsOnFirstEq p"
  show "snd (GetMinimumProviderVersions minProviderVersions) \<noteq> None"
  proof
    assume "snd (GetMinimumProviderVersions minProviderVersions) = None"
    with ne obtain m0 where
      "rangeProviders Map.empty (Split minProviderVersions CHR '','') = (m0, None)"
      by (cases "rangeProviders Map.empty (Split minProviderVersions CHR '','')")
        (simp add: GetMinimumProviderVersions_def)
    from rangeProviders_accepted [OF this] p have "validPair p" by blast
    with ns show False by (simp add: validPair_splitsOnFirstEq)
  qed
next
  assume ne: "minProviderVersions \<noteq> []"
    and sp: "Split minProviderVersions CHR '','' = ps1 @ p # ps2"
    and r: "rangeProviders Map.empty ps1 = (m, None)"
  {
    assume "rangeProviders Map.empty (ps1 @ [p]) = (m', None)"
    from rangeProviders_accepted [OF this] have "validPair p" by simp
    then have *: "splitsOnFirstEq p \<and> length (pairTokens p) = 2 \<and> providerOf p \<noteq> [] \<and> versionOf p \<noteq> []"
      by (rule validPair_splitsOnFirstEq)
    from * show "splitsOnFirstEq p" by simp
    from * show "length (pairTokens p) = 2" by simp
    from * show "providerOf p \<noteq> []" by simp
    from * show "versionOf p \<noteq> []" by simp
  }
  {
    assume "\<not> splitsOnFirstEq p"
    from loopBody_malformed [OF this] obtain e where e: "loopBody m p = Inl e" "MalformedEntryError e"
      by blast
    from rangeProviders_first_error [OF r e(1)] ne sp
    have "GetMinimumProviderVersions minProviderVersions = (m, Some e)"
      by (simp add: GetMinimumProviderVersions_def)
    with e(2) show "\<exists>e. GetMinimumProviderVersions minProviderVersions = (m, Some e) \<and> MalformedEntryError e"
      by blast
  }
  {
    assume "CHR ''='' \<notin> set p"
    then have "loopBody m p = Inl (ErrNotExpectedFormat [TrimSpace p])"
      by (simp add: loopBody_eq pairTokens_no_eq)
    from rangeProviders_first_error [OF r this] ne sp
    show "GetMinimumProviderVersions minProviderVersions = (m, Some (ErrNotExpectedFormat [TrimSpace p]))"
      by (simp add: GetMinimumProviderVersions_def)
  }
qed

text \<open>
  The theorem at \<open>"vault1.0.0"\<close>, a single pair without \<open>=\<close>, and at the second pair of
  \<open>"a=1.0.0,b=2.0.0"\<close>, which is accepted.
\<close>

theorem GetMinimumProviderVersions_malformed_pair_witness:"''vault1.0.0'' \<noteq> [] \<and> Split ''vault1.0.0'' CHR '','' = [] @ ''vault1.0.0'' # []
   \<and> rangeProviders Map.empty [] = (Map.empty, None)
   \<and> ''vault1.0.0'' \<in> set (Split ''vault1.0.0'' CHR '','')
   \<and> \<not> splitsOnFirstEq ''vault1.0.0'' \<and> CHR ''='' \<notin> set ''vault1.0.0''
   \<and> snd (GetMinimumProviderVersions ''vault1.0.0'') \<noteq> None
   \<and> GetMinimumProviderVersions ''vault1.0.0''
       = (Map.empty, Some (ErrNotExpectedFormat [''vault1.0.0'']))
   \<and> Split ''a=1.0.0,b=2.0.0'' CHR '','' = [''a=1.0.0''] @ ''b=2.0.0'' # []
   \<and> rangeProviders Map.empty [''a=1.0.0''] = (Map.empty(''a'' \<mapsto> ''1.0.0''), None)
   \<and> rangeProviders Map.empty ([''a=1.0.0''] @ [''b=2.0.0''])
       = (Map.empty(''a'' \<mapsto> ''1.0.0'', ''b'' \<mapsto> ''2.0.0''), None)
   \<and> splitsOnFirstEq ''b=2.0.0''"
proof -
  have a1: "''vault1.0.0'' \<noteq> []" by simp
  have a2: "Split ''vault1.0.0'' CHR '','' = [] @ ''vault1.0.0'' # []" by simp
  have a3: "rangeProviders Map.empty [] = (Map.empty, None)" by simp
  have a4: "\<not> splitsOnFirstEq ''vault1.0.0''" by (simp add: claim_eval str_eval)
  have a5: "CHR ''='' \<notin> set ''vault1.0.0''" by simp
  have t: "TrimSpace ''vault1.0.0'' = ''vault1.0.0''" by (simp add: str_eval)
  have b1: "''a=1.0.0,b=2.0.0'' \<noteq> []" by simp
  have b2: "Split ''a=1.0.0,b=2.0.0'' CHR '','' = [''a=1.0.0''] @ ''b=2.0.0'' # []" by simp
  have b3: "rangeProviders Map.empty [''a=1.0.0''] = (Map.empty(''a'' \<mapsto> ''1.0.0''), None)"
    by (simp add: version_eval str_eval semver_eval)
  have b4: "rangeProviders Map.empty ([''a=1.0.0''] @ [''b=2.0.0''])
       = (Map.empty(''a'' \<mapsto> ''1.0.0'', ''b'' \<mapsto> ''2.0.0''), None)"
    by (simp add: version_eval str_eval semver_eval)
  from GetMinimumProviderVersions_malformed_pair
      [of "''vault1.0.0''" "''vault1.0.0''" "[]" "[]" Map.empty Map.empty] a1 a2 a3 a5 t
  have g: "GetMinimumProviderVersions ''vault1.0.0''
       = (Map.empty, Some (ErrNotExpectedFormat [''vault1.0.0'']))"
    by simp
  from GetMinimumProviderVersions_malformed_pair
      [of "''a=1.0.0,b=2.0.0''" "''b=2.0.0''" "[''a=1.0.0'']" "[]" "Map.empty(''a'' \<mapsto> ''1.0.0'')"
          "Map.empty(''a'' \<mapsto> ''1.0.0'', ''b'' \<mapsto> ''2.0.0'')"] b1 b2 b3 b4
  have s: "splitsOnFirstEq ''b=2.0.0''" by blast
  have a6: "''vault1.0.0'' \<in> set (Split ''vault1.0.0'' CHR '','')" by simp
  from GetMinimumProviderVersions_malformed_pair
      [of "''vault1.0.0''" "''vault1.0.0''" "[]" "[]" Map.empty Map.empty] a1 a6 a4
  have n: "snd (GetMinimumProviderVersions ''vault1.0.0'') \<noteq> None" by blast
  from a1 a2 a3 a4 a5 a6 n g b2 b3 b4 s show ?thesis by blast
qed

text \<open>
  C3 as the claim words it, for every pair of the string, fails at \<open>"a=bad,vault1.0.0"\<close>:
  the second pair has no \<open>=\<close>, but the loop returns at the first pair, whose version is no
  semver, and that error is not of the kind \<open>MalformedEntryError\<close>.
\<close>

theorem GetMinimumProviderVersions_malformed_pair_counterexample:
  "Split ''a=bad,vault1.0.0'' CHR '','' = [''a=bad'', ''vault1.0.0'']
   \<and> \<not> splitsOnFirstEq ''vault1.0.0''
   \<and> GetMinimumProviderVersions ''a=bad,vault1.0.0''
       = (Map.empty, Some (ErrNotValidSemver ''a'' ''bad'' NoMajorMinorPatch))
   \<and> \<not> MalformedEntryError (ErrNotValidSemver ''a'' ''bad'' NoMajorMinorPatch)"
proof -
  have 1: "Split ''a=bad,vault1.0.0'' CHR '','' = [''a=bad'', ''vault1.0.0'']" by simp
  have 2: "\<not> splitsOnFirstEq ''vault1.0.0''" by (simp add: claim_eval str_eval)
  have 3: "GetMinimumProviderVersions ''a=bad,vault1.0.0''
       = (Map.empty, Some (ErrNotValidSemver ''a'' ''bad'' NoMajorMinorPatch))"
    by (simp add: version_eval str_eval semver_eval)
  from 1 2 3 show ?thesis by simp
qed

text \<open>
  C4, as the code has it. A configuration string in which two pairs have the same trimmed
  provider name is never accepted: \<open>GetMinimumProviderVersions\<close> returns an error for it.
  Which error, the first failing pair decides. Let \<open>p\<close> be a pair of a configuration string
  that is not empty, let every pair before \<open>p\<close> have been accepted, leaving the map \<open>m\<close>, and
  let \<open>q\<close> be one of them with the provider name of \<open>p\<close>. If \<open>p\<close> has exactly two tokens and its version token is not
  empty, \<open>GetMinimumProviderVersions\<close> returns the error of line 79, of the kind
  \<open>DuplicateProviderError\<close>, naming the provider, the version of \<open>q\<close> and the version of \<open>p\<close>.
  Nothing is asked of the two versions: they may be equal or differ, and the version of
  \<open>p\<close> need not be a semver, since the test for a duplicate comes first.
\<close>

theorem GetMinimumProviderVersions_duplicate_provider:
  "(minProviderVersions \<noteq> []
      \<and> \<not> distinct (map providerOf (Split minProviderVersions CHR '',''))
     \<longrightarrow> snd (GetMinimumProviderVersions minProviderVersions) \<noteq> None)
   \<and> (minProviderVersions \<noteq> [] \<and> Split minProviderVersions CHR '','' = ps1 @ p # ps2
     \<and> rangeProviders Map.empty ps1 = (m, None)
     \<and> q \<in> set ps1 \<and> providerOf p = providerOf q
     \<and> length (pairTokens p) = 2 \<and> versionOf p \<noteq> []
   \<longrightarrow> GetMinimumProviderVersions minProviderVersions
         = (m, Some (ErrDuplicateVersions (providerOf p) (versionOf q) (versionOf p)))
       \<and> DuplicateProviderError (ErrDuplicateVersions (providerOf p) (versionOf q) (versionOf p)))"
proof (intro conjI impI; elim conjE)
  assume ne: "minProviderVersions \<noteq> []"
    and nd: "\<not> distinct (map providerOf (Split minProviderVersions CHR '',''))"
  show "snd (GetMinimumProviderVersions minProviderVersions) \<noteq> None"
  proof
    assume "snd (GetMinimumProviderVersions minProviderVersions) = None"
    with ne obtain m0 where
      "rangeProviders Map.empty (Split minProviderVersions CHR '','') = (m0, None)"
      by (cases "rangeProviders Map.empty (Split minProviderVersions CHR '','')")
        (simp add: GetMinimumProviderVersions_def)
    from rangeProviders_accepted [OF this] nd show False by blast
  qed
next
  assume ne: "minProviderVersions \<noteq> []"
    and sp: "Split minProviderVersions CHR '','' = ps1 @ p # ps2"
    and r: "rangeProviders Map.empty ps1 = (m, None)"
    and q: "q \<in> set ps1" and pq: "providerOf p = providerOf q"
    and l: "length (pairTokens p) = 2" and v: "versionOf p \<noteq> []"
  from rangeProviders_accepted [OF r] q have vq: "validPair q"
    and mq: "m (providerOf q) = Some (versionOf q)"
    by simp_all
  from vq pq have "providerOf p \<noteq> []" by (simp add: validPair_def)
  with l v mq pq have "loopBody m p = Inl (ErrDuplicateVersions (providerOf p) (versionOf q) (versionOf p))"
    by (simp add: loopBody_eq)
  from rangeProviders_first_error [OF r this] ne sp
  have "GetMinimumProviderVersions minProviderVersions
         = (m, Some (ErrDuplicateVersions (providerOf p) (versionOf q) (versionOf p)))"
    by (simp add: GetMinimumProviderVersions_def)
  then show "GetMinimumProviderVersions minProviderVersions
         = (m, Some (ErrDuplicateVersions (providerOf p) (versionOf q) (versionOf p)))"
    by simp
  show "DuplicateProviderError (ErrDuplicateVersions (providerOf p) (versionOf q) (versionOf p))"
    by simp
qed

text \<open>
  The theorem at \<open>"vault=1.0.0,vault=1.0.0"\<close>, the two versions equal, and at
  \<open>"vault=1.0.0, vault = x"\<close>, the two versions different and the second one no semver.
\<close>

theorem GetMinimumProviderVersions_duplicate_provider_witness:
  "''vault=1.0.0,vault=1.0.0'' \<noteq> []
   \<and> Split ''vault=1.0.0,vault=1.0.0'' CHR '','' = [''vault=1.0.0''] @ ''vault=1.0.0'' # []
   \<and> rangeProviders Map.empty [''vault=1.0.0''] = (Map.empty(''vault'' \<mapsto> ''1.0.0''), None)
   \<and> ''vault=1.0.0'' \<in> set [''vault=1.0.0'']
   \<and> providerOf ''vault=1.0.0'' = ''vault'' \<and> versionOf ''vault=1.0.0'' = ''1.0.0''
   \<and> length (pairTokens ''vault=1.0.0'') = 2
   \<and> \<not> distinct (map providerOf (Split ''vault=1.0.0,vault=1.0.0'' CHR '',''))
   \<and> snd (GetMinimumProviderVersions ''vault=1.0.0,vault=1.0.0'') \<noteq> None
   \<and> GetMinimumProviderVersions ''vault=1.0.0,vault=1.0.0''
       = (Map.empty(''vault'' \<mapsto> ''1.0.0''), Some (ErrDuplicateVersions ''vault'' ''1.0.0'' ''1.0.0''))
   \<and> Split ''vault=1.0.0, vault = x'' CHR '','' = [''vault=1.0.0''] @ '' vault = x'' # []
   \<and> providerOf '' vault = x'' = ''vault'' \<and> versionOf '' vault = x'' = ''x''
   \<and> length (pairTokens '' vault = x'') = 2
   \<and> GetMinimumProviderVersions ''vault=1.0.0, vault = x''
       = (Map.empty(''vault'' \<mapsto> ''1.0.0''), Some (ErrDuplicateVersions ''vault'' ''1.0.0'' ''x''))"
proof -
  have a1: "''vault=1.0.0,vault=1.0.0'' \<noteq> []" by simp
  have a2: "Split ''vault=1.0.0,vault=1.0.0'' CHR '','' = [''vault=1.0.0''] @ ''vault=1.0.0'' # []"
    by simp
  have r: "rangeProviders Map.empty [''vault=1.0.0''] = (Map.empty(''vault'' \<mapsto> ''1.0.0''), None)"
    by (simp add: version_eval str_eval semver_eval)
  have q: "''vault=1.0.0'' \<in> set [''vault=1.0.0'']" by simp
  have t1: "pairTokens ''vault=1.0.0'' = [''vault'', ''1.0.0'']" by (simp add: claim_eval str_eval)
  have p1: "providerOf ''vault=1.0.0'' = ''vault''"
    by (simp add: providerOf_def t1) (simp add: str_eval)
  have v1: "versionOf ''vault=1.0.0'' = ''1.0.0''"
    by (simp add: versionOf_def t1) (simp add: str_eval)
  have l1: "length (pairTokens ''vault=1.0.0'') = 2" by (simp add: t1)
  have b1: "''vault=1.0.0, vault = x'' \<noteq> []" by simp
  have b2: "Split ''vault=1.0.0, vault = x'' CHR '','' = [''vault=1.0.0''] @ '' vault = x'' # []"
    by simp
  have t2: "pairTokens '' vault = x'' = [''vault '', '' x'']" by (simp add: claim_eval str_eval)
  have p2: "providerOf '' vault = x'' = ''vault''"
    by (simp add: providerOf_def t2) (simp add: str_eval)
  have v2: "versionOf '' vault = x'' = ''x''"
    by (simp add: versionOf_def t2) (simp add: str_eval)
  have l2: "length (pairTokens '' vault = x'') = 2" by (simp add: t2)
  have g1: "GetMinimumProviderVersions ''vault=1.0.0,vault=1.0.0''
       = (Map.empty(''vault'' \<mapsto> ''1.0.0''), Some (ErrDuplicateVersions ''vault'' ''1.0.0'' ''1.0.0''))"
    using GetMinimumProviderVersions_duplicate_provider
        [of "''vault=1.0.0,vault=1.0.0''" "[''vault=1.0.0'']" "''vault=1.0.0''" "[]"
            "Map.empty(''vault'' \<mapsto> ''1.0.0'')" "''vault=1.0.0''"]
      a1 a2 r q p1 v1 l1
    by simp
  have g2: "GetMinimumProviderVersions ''vault=1.0.0, vault = x''
       = (Map.empty(''vault'' \<mapsto> ''1.0.0''), Some (ErrDuplicateVersions ''vault'' ''1.0.0'' ''x''))"
    using GetMinimumProviderVersions_duplicate_provider
        [of "''vault=1.0.0, vault = x''" "[''vault=1.0.0'']" "'' vault = x''" "[]"
            "Map.empty(''vault'' \<mapsto> ''1.0.0'')" "''vault=1.0.0''"]
      b1 b2 r q p1 v1 p2 v2 l2
    by simp
  have nd: "\<not> distinct (map providerOf (Split ''vault=1.0.0,vault=1.0.0'' CHR '',''))"
    by (simp add: p1)
  from GetMinimumProviderVersions_duplicate_provider
      [of "''vault=1.0.0,vault=1.0.0''" "[''vault=1.0.0'']" "''vault=1.0.0''" "[]"
          "Map.empty(''vault'' \<mapsto> ''1.0.0'')" "''vault=1.0.0''"] a1 nd
  have sn: "snd (GetMinimumProviderVersions ''vault=1.0.0,vault=1.0.0'') \<noteq> None" by blast
  from a1 a2 r q p1 v1 l1 nd sn g1 b2 p2 v2 l2 g2 show ?thesis by simp
qed

text \<open>
  C4 as the claim words it, for every configuration string with a provider name in more
  than one pair, fails at \<open>"vault=bad,vault=1.0.0"\<close>: both pairs name \<open>vault\<close>, but the loop
  returns at the first pair, whose version is no semver, and that error is not of the kind
  \<open>DuplicateProviderError\<close>.
\<close>

theorem GetMinimumProviderVersions_duplicate_provider_counterexample:
  "Split ''vault=bad,vault=1.0.0'' CHR '','' = [''vault=bad'', ''vault=1.0.0'']
   \<and> providerOf ''vault=bad'' = ''vault'' \<and> providerOf ''vault=1.0.0'' = ''vault''
   \<and> GetMinimumProviderVersions ''vault=bad,vault=1.0.0''
       = (Map.empty, Some (ErrNotValidSemver ''vault'' ''bad'' NoMajorMinorPatch))
   \<and> \<not> DuplicateProviderError (ErrNotValidSemver ''vault'' ''bad'' NoMajorMinorPatch)"
proof -
  have 1: "Split ''vault=bad,vault=1.0.0'' CHR '','' = [''vault=bad'', ''vault=1.0.0'']" by simp
  have 2: "providerOf ''vault=bad'' = ''vault''" by (simp add: claim_eval str_eval)
  have 3: "providerOf ''vault=1.0.0'' = ''vault''" by (simp add: claim_eval str_eval)
  have 4: "GetMinimumProviderVersions ''vault=bad,vault=1.0.0''
       = (Map.empty, Some (ErrNotValidSemver ''vault'' ''bad'' NoMajorMinorPatch))"
    by (simp add: version_eval str_eval semver_eval)
  from 1 2 3 4 show ?thesis by simp
qed

text \<open>
  C5. When \<open>getProviderVersion\<close> returns an error, \<open>IsProviderCompatible\<close> returns the verdict
  false together with that very error, whatever the minimum version is, so that the result
  is the same for any two minimum versions: neither the normalization nor the comparison
  has a part in it. The probe fails when the run of the program returns an error (the
  program cannot be started or exits with a status other than 0), with the error of line
  102, and when the output cannot be decoded, with the error of line 106.
\<close>

theorem IsProviderCompatible_probe_error:
  "(getProviderVersion sys ctx provider = (v, Some err)
      \<longrightarrow> IsProviderCompatible sys ctx provider minProviderVersion = (False, Some err)
        \<and> IsProviderCompatible sys ctx provider minProviderVersion
            = IsProviderCompatible sys ctx provider otherVersion)
   \<and> (runErr (Run sys ctx provider [''--version'']) = Some e
      \<longrightarrow> IsProviderCompatible sys ctx provider minProviderVersion
           = (False, Some (ErrGettingVersion provider e
                (stderr (Run sys ctx provider [''--version'']))))
        \<and> ProcessError (ErrGettingVersion provider e
                (stderr (Run sys ctx provider [''--version'']))))
   \<and> (runErr (Run sys ctx provider [''--version'']) = None
      \<and> fst (Unmarshal sys (stdout (Run sys ctx provider [''--version''])) zeroProviderVersion)
          = Some e
      \<longrightarrow> IsProviderCompatible sys ctx provider minProviderVersion
           = (False, Some (ErrUnmarshalling e))
        \<and> DecodeError (ErrUnmarshalling e))"
  by (auto simp: IsProviderCompatible_def getProviderVersion_def Let_def
      split: option.splits prod.splits)

text \<open>
  The theorem at a provider whose run fails, asked about a minimum that is no version, and
  at a provider whose output cannot be decoded.
\<close>

theorem IsProviderCompatible_probe_error_witness:
  "getProviderVersion (providerFailing ''exit status 1'' ''boom'') () ''vault''
     = ([], Some (ErrGettingVersion ''vault'' ''exit status 1'' ''boom''))
   \<and> runErr (Run (providerFailing ''exit status 1'' ''boom'') () ''vault'' [''--version''])
     = Some ''exit status 1''
   \<and> IsProviderCompatible (providerFailing ''exit status 1'' ''boom'') () ''vault'' ''not a version''
     = (False, Some (ErrGettingVersion ''vault'' ''exit status 1'' ''boom''))
   \<and> runErr (Run (providerUndecodable ''invalid character'') () ''vault'' [''--version'']) = None
   \<and> fst (Unmarshal (providerUndecodable ''invalid character'')
        (stdout (Run (providerUndecodable ''invalid character'') () ''vault'' [''--version'']))
        zeroProviderVersion) = Some ''invalid character''
   \<and> IsProviderCompatible (providerUndecodable ''invalid character'') () ''vault'' ''1.0.0''
     = (False, Some (ErrUnmarshalling ''invalid character''))"
  using IsProviderCompatible_probe_error
      [of "providerFailing ''exit status 1'' ''boom''" "()" "''vault''" "[]"
          "ErrGettingVersion ''vault'' ''exit status 1'' ''boom''" "''not a version''"
          "''1.0.0''" "''exit status 1''"]
    IsProviderCompatible_probe_error
      [of "providerUndecodable ''invalid character''" "()" "''vault''" "[]"
          "ErrUnmarshalling ''invalid character''" "''1.0.0''" "''1.0.0''"
          "''invalid character''"]
  by (simp add: provider_eval getProviderVersion_def)

text \<open>
  C6. \<open>isProviderCompatible\<close>, the comparison under \<open>IsProviderCompatible\<close>, returns an error
  of \<open>semver.Make\<close> and the verdict false whenever one of its two arguments is not a valid
  semver: the error of the first argument when that is not one, the error of the second
  when the first is one and the second is not. So \<open>IsProviderCompatible\<close>
  returns an error of \<open>semver.Make\<close> when the probe succeeds and the probed version or the
  minimum version is not a valid semver after \<open>normalizeVersion\<close>. When the run succeeds and
  the decoder leaves the \<open>Version\<close> field as it is in the zero record (what it does for an
  output without a \<open>version\<close> field), the probed version is the empty string, and
  \<open>IsProviderCompatible\<close> returns the error of \<open>semver.Make\<close> for the empty string, whatever
  the minimum version is.
\<close>

theorem isProviderCompatible_rejects_invalid_semver:
  "((\<exists>e. semver_Make a = Inl e) \<or> (\<exists>e. semver_Make b = Inl e)
      \<longrightarrow> (\<exists>err. isProviderCompatible a b = (False, Some (SemverError err))
             \<and> InvalidSemverError (SemverError err)))
   \<and> (semver_Make a = Inl e \<longrightarrow> isProviderCompatible a b = (False, Some (SemverError e)))
   \<and> (semver_Make a = Inr va \<and> semver_Make b = Inl e
        \<longrightarrow> isProviderCompatible a b = (False, Some (SemverError e)))
   \<and> (getProviderVersion sys ctx provider = (currProviderVersion, None)
        \<and> (semver_Make (normalizeVersion currProviderVersion) = Inl e
           \<or> semver_Make (normalizeVersion minProviderVersion) = Inl e)
        \<longrightarrow> (\<exists>err. IsProviderCompatible sys ctx provider minProviderVersion
                     = (False, Some (SemverError err))))
   \<and> (runErr (Run sys ctx provider [''--version'']) = None
        \<and> Unmarshal sys (stdout (Run sys ctx provider [''--version''])) zeroProviderVersion
            = (None, pv)
        \<and> Version pv = Version zeroProviderVersion
        \<longrightarrow> getProviderVersion sys ctx provider = ([], None)
          \<and> IsProviderCompatible sys ctx provider minProviderVersion
              = (False, Some (SemverError VersionStringEmpty)))"
proof -
  have 0: "(\<exists>e. semver_Make a = Inl e) \<or> (\<exists>e. semver_Make b = Inl e)
      \<longrightarrow> (\<exists>err. isProviderCompatible a b = (False, Some (SemverError err))
             \<and> InvalidSemverError (SemverError err))"
    by (auto simp: isProviderCompatible_def split: sum.splits)
  have 1: "semver_Make a = Inl e \<longrightarrow> isProviderCompatible a b = (False, Some (SemverError e))"
    by (simp add: isProviderCompatible_def)
  have 2: "semver_Make a = Inr va \<and> semver_Make b = Inl e
        \<longrightarrow> isProviderCompatible a b = (False, Some (SemverError e))"
    by (simp add: isProviderCompatible_def)
  have 3: "getProviderVersion sys ctx provider = (currProviderVersion, None)
        \<and> (semver_Make (normalizeVersion currProviderVersion) = Inl e
           \<or> semver_Make (normalizeVersion minProviderVersion) = Inl e)
        \<longrightarrow> (\<exists>err. IsProviderCompatible sys ctx provider minProviderVersion
                     = (False, Some (SemverError err)))"
    by (auto simp: IsProviderCompatible_def isProviderCompatible_def split: sum.splits)
  have 4: "runErr (Run sys ctx provider [''--version'']) = None
        \<and> Unmarshal sys (stdout (Run sys ctx provider [''--version''])) zeroProviderVersion
            = (None, pv)
        \<and> Version pv = Version zeroProviderVersion
        \<longrightarrow> getProviderVersion sys ctx provider = ([], None)
          \<and> IsProviderCompatible sys ctx provider minProviderVersion
              = (False, Some (SemverError VersionStringEmpty))"
    by (simp add: IsProviderCompatible_def getProviderVersion_def zeroProviderVersion_def
        normalizeVersion_def TrimPrefix_def isProviderCompatible_def semver_Make_empty)
  from 0 1 2 3 4 show ?thesis by blast
qed

text \<open>
  The theorem at the version \<open>1.0\<close>, which lacks the patch number, as the first and as the
  second argument, at a provider reporting \<open>v1.0.0\<close> against the minimum \<open>v1.0\<close>, and at a
  provider whose output has no \<open>version\<close> field.
\<close>

theorem isProviderCompatible_rejects_invalid_semver_witness:
  "semver_Make ''1.0'' = Inl NoMajorMinorPatch
   \<and> isProviderCompatible ''1.0'' ''1.0.0'' = (False, Some (SemverError NoMajorMinorPatch))
   \<and> semver_Make ''1.0.0'' = Inr \<lparr>Major = 1, Minor = 0, Patch = 0, Pre = [], Build = []\<rparr>
   \<and> isProviderCompatible ''1.0.0'' ''1.0'' = (False, Some (SemverError NoMajorMinorPatch))
   \<and> getProviderVersion (providerReporting ''v1.0.0'') () ''vault'' = (''v1.0.0'', None)
   \<and> semver_Make (normalizeVersion ''v1.0'') = Inl NoMajorMinorPatch
   \<and> (\<exists>err. IsProviderCompatible (providerReporting ''v1.0.0'') () ''vault'' ''v1.0''
               = (False, Some (SemverError err)))
   \<and> getProviderVersion providerWithoutVersion () ''vault'' = ([], None)
   \<and> IsProviderCompatible providerWithoutVersion () ''vault'' ''1.0.0''
       = (False, Some (SemverError VersionStringEmpty))"
proof -
  have m1: "semver_Make ''1.0'' = Inl NoMajorMinorPatch"
    by (simp add: semver_eval)
  have m2: "semver_Make ''1.0.0'' = Inr \<lparr>Major = 1, Minor = 0, Patch = 0, Pre = [], Build = []\<rparr>"
    by (simp add: semver_eval)
  have g: "getProviderVersion (providerReporting ''v1.0.0'') () ''vault'' = (''v1.0.0'', None)"
    by (simp add: getProviderVersion_def providerReporting_def)
  have n: "normalizeVersion ''v1.0'' = ''1.0''"
    by (simp add: normalizeVersion_def TrimPrefix_def)
  have r: "runErr (Run providerWithoutVersion () ''vault'' [''--version'']) = None"
    by (simp add: providerWithoutVersion_def)
  have u: "Unmarshal providerWithoutVersion
             (stdout (Run providerWithoutVersion () ''vault'' [''--version'']))
             zeroProviderVersion = (None, zeroProviderVersion)"
    by (simp add: providerWithoutVersion_def)
  show ?thesis
    using isProviderCompatible_rejects_invalid_semver
        [of "''1.0''" "''1.0.0''" NoMajorMinorPatch "\<lparr>Major = 1, Minor = 0, Patch = 0, Pre = [], Build = []\<rparr>"
            "providerReporting ''v1.0.0''" "()" "''vault''" "''v1.0.0''" "''v1.0''"
            zeroProviderVersion]
      isProviderCompatible_rejects_invalid_semver
        [of "''1.0.0''" "''1.0''" NoMajorMinorPatch "\<lparr>Major = 1, Minor = 0, Patch = 0, Pre = [], Build = []\<rparr>"
            providerWithoutVersion "()" "''vault''" "[]" "''1.0.0''" zeroProviderVersion]
      m1 m2 g n r u
    by simp
qed

text \<open>
  C7. \<open>normalizeVersion\<close> strips exactly one leading \<open>v\<close> when there is one and returns any
  other string as it is: for every \<open>s\<close>, the string \<open>v\<close> followed by \<open>s\<close> becomes \<open>s\<close> (whatever
  \<open>s\<close> starts with), and a string that does not start with \<open>v\<close> is unchanged; so
  \<open>"v1.2.3"\<close> and \<open>"1.2.3"\<close> both give \<open>"1.2.3"\<close>, and \<open>"vv1.2.3"\<close> gives \<open>"v1.2.3"\<close>.
\<close>

theorem normalizeVersion_strips_one_v:
  "normalizeVersion (CHR ''v'' # s) = s
   \<and> (\<not> prefix ''v'' s \<longrightarrow> normalizeVersion s = s)
   \<and> normalizeVersion ''v1.2.3'' = ''1.2.3''
   \<and> normalizeVersion ''1.2.3'' = ''1.2.3''
   \<and> normalizeVersion ''vv1.2.3'' = ''v1.2.3''"
  by (simp add: normalizeVersion_def TrimPrefix_def)

text \<open>
  The theorem at \<open>"1.2.3"\<close>.
\<close>

theorem normalizeVersion_strips_one_v_witness:
  "\<not> prefix ''v'' ''1.2.3'' \<and> normalizeVersion ''1.2.3'' = ''1.2.3''
   \<and> normalizeVersion ''v1.2.3'' = ''1.2.3''"
  using normalizeVersion_strips_one_v [of "''1.2.3''"] by simp

text \<open>
  C8. When every comma-separated pair of a configuration string trims to a non-empty
  provider name and a version that is a valid semver, and the provider names are distinct,
  \<open>GetMinimumProviderVersions\<close> returns no error and the mapping of the pairs' entries: it
  sends the trimmed provider name of each pair to the trimmed version of that pair, and it
  is defined on these names only. For \<open>"vault=1.0.0,azure=2.1.3"\<close> the mapping sends \<open>vault\<close>
  to \<open>1.0.0\<close> and \<open>azure\<close> to \<open>2.1.3\<close>.
\<close>

theorem GetMinimumProviderVersions_valid_pairs:
  assumes "\<forall>p \<in> set (Split minProviderVersions CHR '',''). validPair p"
    and "distinct (map providerOf (Split minProviderVersions CHR '',''))"
  shows "GetMinimumProviderVersions minProviderVersions
           = (map_of (map pairEntry (Split minProviderVersions CHR '','')), None)
         \<and> (\<forall>p \<in> set (Split minProviderVersions CHR '','').
               fst (GetMinimumProviderVersions minProviderVersions) (providerOf p)
                 = Some (versionOf p))
         \<and> dom (fst (GetMinimumProviderVersions minProviderVersions))
             = providerOf ` set (Split minProviderVersions CHR '','')
         \<and> GetMinimumProviderVersions ''vault=1.0.0,azure=2.1.3''
             = (Map.empty(''vault'' \<mapsto> ''1.0.0'', ''azure'' \<mapsto> ''2.1.3''), None)"
proof -
  let ?ps = "Split minProviderVersions CHR '',''"
  have ne: "minProviderVersions \<noteq> []"
  proof
    assume "minProviderVersions = []"
    then have "[] \<in> set ?ps" by simp
    with assms(1) have "validPair []" by blast
    with validPair_Nil show False by simp
  qed
  from assms have "rangeProviders Map.empty ?ps = (Map.empty ++ map_of (map pairEntry ?ps), None)"
    by (intro rangeProviders_valid) simp_all
  with ne have res: "GetMinimumProviderVersions minProviderVersions
      = (map_of (map pairEntry ?ps), None)"
    by (simp add: GetMinimumProviderVersions_def)
  from ne res have "rangeProviders Map.empty ?ps = (map_of (map pairEntry ?ps), None)"
    by (simp add: GetMinimumProviderVersions_def)
  from rangeProviders_accepted [OF this] res
  have vals: "\<forall>p \<in> set ?ps. fst (GetMinimumProviderVersions minProviderVersions) (providerOf p)
                 = Some (versionOf p)"
    and dm: "dom (fst (GetMinimumProviderVersions minProviderVersions)) = providerOf ` set ?ps"
    by simp_all
  have ex: "GetMinimumProviderVersions ''vault=1.0.0,azure=2.1.3''
             = (Map.empty(''vault'' \<mapsto> ''1.0.0'', ''azure'' \<mapsto> ''2.1.3''), None)"
    by (simp add: version_eval str_eval semver_eval)
  from res vals dm ex show ?thesis by blast
qed

text \<open>
  The theorem at \<open>" vault = 1.0.0 ,azure=2.1.3-rc.1"\<close>, with white space around the tokens
  of the first pair.
\<close>

theorem GetMinimumProviderVersions_valid_pairs_witness:
  "Split '' vault = 1.0.0 ,azure=2.1.3-rc.1'' CHR '','' = ['' vault = 1.0.0 '', ''azure=2.1.3-rc.1'']
   \<and> validPair '' vault = 1.0.0 '' \<and> validPair ''azure=2.1.3-rc.1''
   \<and> distinct (map providerOf (Split '' vault = 1.0.0 ,azure=2.1.3-rc.1'' CHR '',''))
   \<and> map pairEntry (Split '' vault = 1.0.0 ,azure=2.1.3-rc.1'' CHR '','')
       = [(''vault'', ''1.0.0''), (''azure'', ''2.1.3-rc.1'')]
   \<and> GetMinimumProviderVersions '' vault = 1.0.0 ,azure=2.1.3-rc.1''
       = (map_of [(''vault'', ''1.0.0''), (''azure'', ''2.1.3-rc.1'')], None)"
proof -
  have sp: "Split '' vault = 1.0.0 ,azure=2.1.3-rc.1'' CHR '','' = ['' vault = 1.0.0 '', ''azure=2.1.3-rc.1'']"
    by simp
  have t1: "pairTokens '' vault = 1.0.0 '' = [''vault '', '' 1.0.0'']"
    by (simp add: claim_eval str_eval)
  have t2: "pairTokens ''azure=2.1.3-rc.1'' = [''azure'', ''2.1.3-rc.1'']"
    by (simp add: claim_eval str_eval)
  have p1: "providerOf '' vault = 1.0.0 '' = ''vault''"
    by (simp add: providerOf_def t1) (simp add: str_eval)
  have v1: "versionOf '' vault = 1.0.0 '' = ''1.0.0''"
    by (simp add: versionOf_def t1) (simp add: str_eval)
  have p2: "providerOf ''azure=2.1.3-rc.1'' = ''azure''"
    by (simp add: providerOf_def t2) (simp add: str_eval)
  have v2: "versionOf ''azure=2.1.3-rc.1'' = ''2.1.3-rc.1''"
    by (simp add: versionOf_def t2) (simp add: str_eval)
  have s1: "isValidSemver ''1.0.0'' = None"
    by (simp add: isValidSemver_def semver_eval)
  have s2: "isValidSemver ''2.1.3-rc.1'' = None"
    by (simp add: isValidSemver_def semver_eval)
  have h1: "\<forall>p \<in> set (Split '' vault = 1.0.0 ,azure=2.1.3-rc.1'' CHR '',''). validPair p"
    by (simp add: sp validPair_def t1 t2 p1 p2 v1 v2 s1 s2)
  have h2: "distinct (map providerOf (Split '' vault = 1.0.0 ,azure=2.1.3-rc.1'' CHR '',''))"
    by (simp add: sp p1 p2)
  have e: "map pairEntry (Split '' vault = 1.0.0 ,azure=2.1.3-rc.1'' CHR '','')
       = [(''vault'', ''1.0.0''), (''azure'', ''2.1.3-rc.1'')]"
    by (simp add: sp pairEntry_def p1 p2 v1 v2)
  have w: "validPair '' vault = 1.0.0 '' \<and> validPair ''azure=2.1.3-rc.1''"
    using h1 by (simp add: sp)
  from GetMinimumProviderVersions_valid_pairs [OF h1 h2] have
    "GetMinimumProviderVersions '' vault = 1.0.0 ,azure=2.1.3-rc.1''
       = (map_of (map pairEntry (Split '' vault = 1.0.0 ,azure=2.1.3-rc.1'' CHR '','')), None)"
    by (rule conjunct1)
  with sp w h2 e show ?thesis by (simp only: simp_thms)
qed

text \<open>
  C9. \<open>GetMinimumProviderVersions\<close> validates the pairs of a configuration string that is not
  empty in the order of the string and reports the first violation. If the pairs before
  \<open>p\<close> are accepted, leaving the map \<open>m\<close>, and the loop's body fails at \<open>p\<close> with the error
  \<open>e\<close>, the result is \<open>m\<close> with \<open>e\<close>, whatever the pairs after \<open>p\<close> are. And an error that
  the function returns is the error of the body at some pair before which every pair was
  accepted. The result is a function of the configuration string alone.
\<close>

theorem GetMinimumProviderVersions_first_violation:
  "minProviderVersions \<noteq> [] \<longrightarrow>
     (Split minProviderVersions CHR '','' = ps1 @ p # ps2
        \<and> rangeProviders Map.empty ps1 = (m, None) \<and> loopBody m p = Inl e
      \<longrightarrow> GetMinimumProviderVersions minProviderVersions = (m, Some e))
     \<and> (GetMinimumProviderVersions minProviderVersions = (m', Some e')
      \<longrightarrow> (\<exists>qs1 q qs2. Split minProviderVersions CHR '','' = qs1 @ q # qs2
             \<and> rangeProviders Map.empty qs1 = (m', None) \<and> loopBody m' q = Inl e'))"
proof (intro impI conjI)
  assume ne: "minProviderVersions \<noteq> []"
  {
    assume "Split minProviderVersions CHR '','' = ps1 @ p # ps2
        \<and> rangeProviders Map.empty ps1 = (m, None) \<and> loopBody m p = Inl e"
    then show "GetMinimumProviderVersions minProviderVersions = (m, Some e)"
      using ne rangeProviders_first_error [of Map.empty ps1 m p e ps2]
      by (simp add: GetMinimumProviderVersions_def)
  }
  {
    assume "GetMinimumProviderVersions minProviderVersions = (m', Some e')"
    with ne have "rangeProviders Map.empty (Split minProviderVersions CHR '','') = (m', Some e')"
      by (simp add: GetMinimumProviderVersions_def)
    then show "\<exists>qs1 q qs2. Split minProviderVersions CHR '','' = qs1 @ q # qs2
             \<and> rangeProviders Map.empty qs1 = (m', None) \<and> loopBody m' q = Inl e'"
      by (rule rangeProviders_error_split)
  }
qed

text \<open>
  The theorem at \<open>"vault=1.0.0,azure,vault=2.0.0"\<close>: the second pair has no \<open>=\<close>, the third
  one repeats a provider; the error of the second pair is the one reported.
\<close>

theorem GetMinimumProviderVersions_first_violation_witness:
  "''vault=1.0.0,azure,vault=2.0.0'' \<noteq> []
   \<and> Split ''vault=1.0.0,azure,vault=2.0.0'' CHR '','' = [''vault=1.0.0''] @ ''azure'' # [''vault=2.0.0'']
   \<and> rangeProviders Map.empty [''vault=1.0.0''] = (Map.empty(''vault'' \<mapsto> ''1.0.0''), None)
   \<and> loopBody (Map.empty(''vault'' \<mapsto> ''1.0.0'')) ''azure'' = Inl (ErrNotExpectedFormat [''azure''])
   \<and> loopBody (Map.empty(''vault'' \<mapsto> ''1.0.0'')) ''vault=2.0.0''
       = Inl (ErrDuplicateVersions ''vault'' ''1.0.0'' ''2.0.0'')
   \<and> GetMinimumProviderVersions ''vault=1.0.0,azure,vault=2.0.0''
       = (Map.empty(''vault'' \<mapsto> ''1.0.0''), Some (ErrNotExpectedFormat [''azure'']))
   \<and> (\<exists>qs1 q qs2. Split ''vault=1.0.0,azure,vault=2.0.0'' CHR '','' = qs1 @ q # qs2
        \<and> rangeProviders Map.empty qs1 = (Map.empty(''vault'' \<mapsto> ''1.0.0''), None)
        \<and> loopBody (Map.empty(''vault'' \<mapsto> ''1.0.0'')) q = Inl (ErrNotExpectedFormat [''azure'']))"
proof -
  have ne: "''vault=1.0.0,azure,vault=2.0.0'' \<noteq> []" by simp
  have sp: "Split ''vault=1.0.0,azure,vault=2.0.0'' CHR '','' = [''vault=1.0.0''] @ ''azure'' # [''vault=2.0.0'']"
    by simp
  have r1: "rangeProviders Map.empty [''vault=1.0.0''] = (Map.empty(''vault'' \<mapsto> ''1.0.0''), None)"
    by (simp add: version_eval str_eval semver_eval)
  have b: "loopBody (Map.empty(''vault'' \<mapsto> ''1.0.0'')) ''azure'' = Inl (ErrNotExpectedFormat [''azure''])"
    by (simp add: version_eval str_eval)
  have d: "loopBody (Map.empty(''vault'' \<mapsto> ''1.0.0'')) ''vault=2.0.0''
       = Inl (ErrDuplicateVersions ''vault'' ''1.0.0'' ''2.0.0'')"
    by (simp add: version_eval str_eval)
  note inst = GetMinimumProviderVersions_first_violation
      [of "''vault=1.0.0,azure,vault=2.0.0''" "[''vault=1.0.0'']" "''azure''" "[''vault=2.0.0'']"
          "Map.empty(''vault'' \<mapsto> ''1.0.0'')" "ErrNotExpectedFormat [''azure'']"
          "Map.empty(''vault'' \<mapsto> ''1.0.0'')" "ErrNotExpectedFormat [''azure'']"]
  from inst ne sp r1 b have g: "GetMinimumProviderVersions ''vault=1.0.0,azure,vault=2.0.0''
       = (Map.empty(''vault'' \<mapsto> ''1.0.0''), Some (ErrNotExpectedFormat [''azure'']))"
    by blast
  with inst ne have ex: "\<exists>qs1 q qs2. Split ''vault=1.0.0,azure,vault=2.0.0'' CHR '','' = qs1 @ q # qs2
        \<and> rangeProviders Map.empty qs1 = (Map.empty(''vault'' \<mapsto> ''1.0.0''), None)
        \<and> loopBody (Map.empty(''vault'' \<mapsto> ''1.0.0'')) q = Inl (ErrNotExpectedFormat [''azure''])"
    by blast
  from ne sp r1 b d g ex show ?thesis by blast
qed

text \<open>
  C10. A version string with a leading \<open>v\<close> is never a valid semver for \<open>isValidSemver\<close>,
  which parses it as it is. So \<open>GetMinimumProviderVersions\<close> returns an error for every
  configuration string with a pair whose version token is \<open>v\<close> followed by \<open>x\<close>; and when
  validation reaches such a pair with a provider that is not empty and not yet in the map,
  the error is the one of line 83, naming the provider and the version. The same string is
  accepted as the minimum version of \<open>IsProviderCompatible\<close> whenever \<open>x\<close> is a valid semver:
  the leading \<open>v\<close> is stripped before parsing, and the call returns a verdict and no error
  when the probe succeeds with a valid version. The two entry points disagree about such a
  string.
\<close>

theorem leading_v_minimum_version:
  "(\<exists>e. isValidSemver (CHR ''v'' # x) = Some e)
   \<and> (minProviderVersions \<noteq> [] \<and> p \<in> set (Split minProviderVersions CHR '','')
        \<and> length (pairTokens p) = 2 \<and> versionOf p = CHR ''v'' # x
      \<longrightarrow> snd (GetMinimumProviderVersions minProviderVersions) \<noteq> None)
   \<and> (minProviderVersions \<noteq> [] \<and> Split minProviderVersions CHR '','' = ps1 @ p # ps2
        \<and> rangeProviders Map.empty ps1 = (m, None)
        \<and> length (pairTokens p) = 2 \<and> providerOf p \<noteq> [] \<and> m (providerOf p) = None
        \<and> versionOf p = CHR ''v'' # x
      \<longrightarrow> (\<exists>e. GetMinimumProviderVersions minProviderVersions
                 = (m, Some (ErrNotValidSemver (providerOf p) (CHR ''v'' # x) e))
               \<and> InvalidSemverError (ErrNotValidSemver (providerOf p) (CHR ''v'' # x) e)))
   \<and> (getProviderVersion sys ctx provider = (currProviderVersion, None)
        \<and> semver_Make (normalizeVersion currProviderVersion) = Inr currV
        \<and> semver_Make x = Inr minV
      \<longrightarrow> IsProviderCompatible sys ctx provider (CHR ''v'' # x)
            = (semver_Compare currV minV \<ge> 0, None))"
proof (intro conjI impI; (elim conjE)?)
  show "\<exists>e. isValidSemver (CHR ''v'' # x) = Some e" by (rule isValidSemver_v_prefix)
next
  assume ne: "minProviderVersions \<noteq> []"
    and p: "p \<in> set (Split minProviderVersions CHR '','')"
    and v: "versionOf p = CHR ''v'' # x"
  show "snd (GetMinimumProviderVersions minProviderVersions) \<noteq> None"
  proof
    assume "snd (GetMinimumProviderVersions minProviderVersions) = None"
    with ne obtain m' where "rangeProviders Map.empty (Split minProviderVersions CHR '','') = (m', None)"
      by (cases "rangeProviders Map.empty (Split minProviderVersions CHR '','')")
        (simp add: GetMinimumProviderVersions_def)
    from rangeProviders_accepted [OF this] p have "validPair p" by blast
    with v have "isValidSemver (CHR ''v'' # x) = None" by (simp add: validPair_def)
    with isValidSemver_v_prefix [of x] show False by simp
  qed
next
  assume ne: "minProviderVersions \<noteq> []"
    and sp: "Split minProviderVersions CHR '','' = ps1 @ p # ps2"
    and r: "rangeProviders Map.empty ps1 = (m, None)"
    and l: "length (pairTokens p) = 2"
    and pr: "providerOf p \<noteq> []" and fresh: "m (providerOf p) = None"
    and v: "versionOf p = CHR ''v'' # x"
  from isValidSemver_v_prefix [of x] obtain e where e: "isValidSemver (CHR ''v'' # x) = Some e"
    by blast
  with l pr fresh v have "loopBody m p = Inl (ErrNotValidSemver (providerOf p) (CHR ''v'' # x) e)"
    by (simp add: loopBody_eq)
  from rangeProviders_first_error [OF r this] ne sp
  have "GetMinimumProviderVersions minProviderVersions
      = (m, Some (ErrNotValidSemver (providerOf p) (CHR ''v'' # x) e))"
    by (simp add: GetMinimumProviderVersions_def)
  then show "\<exists>e. GetMinimumProviderVersions minProviderVersions
      = (m, Some (ErrNotValidSemver (providerOf p) (CHR ''v'' # x) e))
      \<and> InvalidSemverError (ErrNotValidSemver (providerOf p) (CHR ''v'' # x) e)"
    by simp
next
  assume "getProviderVersion sys ctx provider = (currProviderVersion, None)"
    and "semver_Make (normalizeVersion currProviderVersion) = Inr currV"
    and "semver_Make x = Inr minV"
  then show "IsProviderCompatible sys ctx provider (CHR ''v'' # x)
            = (semver_Compare currV minV \<ge> 0, None)"
    by (simp add: IsProviderCompatible_def isProviderCompatible_def normalizeVersion_def
        TrimPrefix_def)
qed

text \<open>
  The theorem at \<open>v1.0.0\<close>: rejected in \<open>"vault=v1.0.0"\<close>, accepted as the minimum for a
  provider reporting \<open>1.2.0\<close>.
\<close>

theorem leading_v_minimum_version_witness:
  "''vault=v1.0.0'' \<noteq> [] \<and> Split ''vault=v1.0.0'' CHR '','' = [] @ ''vault=v1.0.0'' # []
   \<and> ''vault=v1.0.0'' \<in> set (Split ''vault=v1.0.0'' CHR '','')
   \<and> rangeProviders Map.empty [] = (Map.empty, None)
   \<and> length (pairTokens ''vault=v1.0.0'') = 2
   \<and> providerOf ''vault=v1.0.0'' = ''vault'' \<and> versionOf ''vault=v1.0.0'' = ''v1.0.0''
   \<and> snd (GetMinimumProviderVersions ''vault=v1.0.0'') \<noteq> None
   \<and> (\<exists>e. GetMinimumProviderVersions ''vault=v1.0.0''
           = (Map.empty, Some (ErrNotValidSemver ''vault'' ''v1.0.0'' e)))
   \<and> getProviderVersion (providerReporting ''1.2.0'') () ''vault'' = (''1.2.0'', None)
   \<and> semver_Make (normalizeVersion ''1.2.0'')
       = Inr \<lparr>Major = 1, Minor = 2, Patch = 0, Pre = [], Build = []\<rparr>
   \<and> semver_Make ''1.0.0'' = Inr \<lparr>Major = 1, Minor = 0, Patch = 0, Pre = [], Build = []\<rparr>
   \<and> IsProviderCompatible (providerReporting ''1.2.0'') () ''vault'' ''v1.0.0'' = (True, None)"
proof -
  have ne: "''vault=v1.0.0'' \<noteq> []" by simp
  have sp: "Split ''vault=v1.0.0'' CHR '','' = [] @ ''vault=v1.0.0'' # []" by simp
  have mem: "''vault=v1.0.0'' \<in> set (Split ''vault=v1.0.0'' CHR '','')" by simp
  have r0: "rangeProviders Map.empty [] = (Map.empty, None)" by simp
  have t: "pairTokens ''vault=v1.0.0'' = [''vault'', ''v1.0.0'']"
    by (simp add: claim_eval str_eval)
  have l: "length (pairTokens ''vault=v1.0.0'') = 2" by (simp add: t)
  have p: "providerOf ''vault=v1.0.0'' = ''vault''"
    by (simp add: providerOf_def t) (simp add: str_eval)
  have v: "versionOf ''vault=v1.0.0'' = ''v1.0.0''"
    by (simp add: versionOf_def t) (simp add: str_eval)
  have g: "getProviderVersion (providerReporting ''1.2.0'') () ''vault'' = (''1.2.0'', None)"
    by (simp add: getProviderVersion_def providerReporting_def)
  have n: "normalizeVersion ''1.2.0'' = ''1.2.0''"
    by (simp add: normalizeVersion_def TrimPrefix_def)
  have m1: "semver_Make ''1.2.0'' = Inr \<lparr>Major = 1, Minor = 2, Patch = 0, Pre = [], Build = []\<rparr>"
    by (simp add: semver_eval)
  have m2: "semver_Make ''1.0.0'' = Inr \<lparr>Major = 1, Minor = 0, Patch = 0, Pre = [], Build = []\<rparr>"
    by (simp add: semver_eval)
  have cmp: "semver_Compare \<lparr>Major = 1, Minor = 2, Patch = 0, Pre = [], Build = []\<rparr>
      \<lparr>Major = 1, Minor = 0, Patch = 0, Pre = [], Build = []\<rparr> = 1"
    by (simp add: semver_Compare_def)
  note inst = leading_v_minimum_version
      [of "''1.0.0''" "''vault=v1.0.0''" "''vault=v1.0.0''" "[]" "[]" Map.empty
          "providerReporting ''1.2.0''" "()" "''vault''" "''1.2.0''"
          "\<lparr>Major = 1, Minor = 2, Patch = 0, Pre = [], Build = []\<rparr>"
          "\<lparr>Major = 1, Minor = 0, Patch = 0, Pre = [], Build = []\<rparr>"]
  from inst ne mem l v have s: "snd (GetMinimumProviderVersions ''vault=v1.0.0'') \<noteq> None"
    by simp
  from inst ne sp r0 l p v have r: "\<exists>e. GetMinimumProviderVersions ''vault=v1.0.0''
           = (Map.empty, Some (ErrNotValidSemver ''vault'' ''v1.0.0'' e))"
    by simp
  from inst g n m1 m2 cmp
  have i: "IsProviderCompatible (providerReporting ''1.2.0'') () ''vault'' ''v1.0.0'' = (True, None)"
    by simp
  from ne sp mem r0 l p v s r g n m1 m2 i show ?thesis by simp
qed

end
